theory Spec2Isabelle
  imports Main
begin

section \<open>Data model\<close>

text \<open>
  The three agents of \<^verbatim>\<open>my-agents/main.go\<close> use the types of the orchestration
  framework they import (\<^verbatim>\<open>core.Event\<close>, \<^verbatim>\<open>core.State\<close>, \<^verbatim>\<open>core.AgentResult\<close>,
  \<^verbatim>\<open>core.Prompt\<close>, \<^verbatim>\<open>core.ModelProvider\<close>). Their declarations are not part of the
  sources; the records below have the fields the agents touch, with the shapes the
  specification's data model gives them.
\<close>

text \<open>
  A Go value of type \<^verbatim>\<open>any\<close>, as far as the agents can tell values apart: the type
  assertion \<^verbatim>\<open>.(string)\<close> separates strings from everything else, and \<^verbatim>\<open>%v\<close> prints it.
\<close>

datatype val = VString string | VInt int | VBool bool | VNil

fun show_nat :: "nat \<Rightarrow> string" where
  "show_nat n =
     (if n < 10 then [char_of (48 + n)]
      else show_nat (n div 10) @ [char_of (48 + n mod 10)])"

declare show_nat.simps [simp del]

text \<open>\<^verbatim>\<open>fmt.Sprintf("%v", v)\<close>.\<close>

fun fmt_v :: "val \<Rightarrow> string" where
  "fmt_v (VString s) = s"
| "fmt_v (VInt i) = (if i < 0 then CHR ''-'' # show_nat (nat (- i)) else show_nat (nat i))"
| "fmt_v (VBool b) = (if b then ''true'' else ''false'')"
| "fmt_v VNil = ''<nil>''"

text \<open>
  Modelled from the spec: the declaration of \<^verbatim>\<open>core.Event\<close> is missing. The data model
  gives an event an opaque id, a data mapping and a metadata mapping.
\<close>

record Event =
  e_id :: string
  e_data :: "string \<rightharpoonup> val"
  e_meta :: "string \<rightharpoonup> string"

text \<open>
  Modelled from the spec: the declaration of \<^verbatim>\<open>core.State\<close> is missing. A state has
  data fields and routing metadata; a later write to a key replaces the earlier one.
\<close>

record State =
  s_fields :: "string \<rightharpoonup> val"
  s_meta :: "string \<rightharpoonup> string"

definition NewState :: State where
  "NewState = \<lparr>s_fields = Map.empty, s_meta = Map.empty\<rparr>"

definition Get :: "State \<Rightarrow> string \<Rightarrow> val option" where
  "Get s k = s_fields s k"

definition Set :: "State \<Rightarrow> string \<Rightarrow> val \<Rightarrow> State" where
  "Set s k v = s\<lparr>s_fields := (s_fields s)(k \<mapsto> v)\<rparr>"

definition SetMeta :: "State \<Rightarrow> string \<Rightarrow> string \<Rightarrow> State" where
  "SetMeta s k v = s\<lparr>s_meta := (s_meta s)(k \<mapsto> v)\<rparr>"

text \<open>
  Modelled from the spec: the constant \<^verbatim>\<open>core.RouteMetadataKey\<close> is missing. It is the
  reserved metadata key of the routing directive; the event built in \<^verbatim>\<open>main\<close> and the
  specification's scenario both write the directive under the key \<^verbatim>\<open>route\<close>.
\<close>

definition RouteMetadataKey :: string where
  "RouteMetadataKey = ''route''"

record Prompt =
  System :: string
  User :: string

record Response =
  Content :: string

text \<open>
  \<^verbatim>\<open>core.AgentResult\<close>: the agents fill the field \<^verbatim>\<open>OutputState\<close> only. The zero value
  \<^verbatim>\<open>core.AgentResult{}\<close> has no output state.
\<close>

record AgentResult =
  OutputState :: "State option"

definition AgentResult_zero :: AgentResult where
  "AgentResult_zero = \<lparr>OutputState = None\<rparr>"

text \<open>
  A Go \<^verbatim>\<open>error\<close> returned by an agent, tagged by where the agent got it from: built
  with \<^verbatim>\<open>fmt.Errorf\<close> (with its message), or handed back by the provider's \<^verbatim>\<open>Call\<close>
  (with the provider's message).
\<close>

datatype error = Errorf string | CallError string

section \<open>The provider and the world an agent runs in\<close>

text \<open>
  \<^verbatim>\<open>llm.Call(ctx, prompt)\<close> is an external capability: a transition of the provider's
  own state \<open>'p\<close> that answers a prompt with a response or with an error message. The
  context is only handed on to the provider and is part of \<open>'p\<close>.
\<close>

type_synonym 'p ModelProvider = "'p \<Rightarrow> Prompt \<Rightarrow> (string + Response) \<times> 'p"

text \<open>
  What an agent's \<^verbatim>\<open>Run\<close> can reach besides its \<^verbatim>\<open>state\<close> argument: the event object
  its \<^verbatim>\<open>event\<close> argument refers to, the provider's state, the prompts the provider has
  been called with, and what has been printed to standard output.
\<close>

record 'p World =
  w_event :: Event
  w_llm :: 'p
  w_calls :: "Prompt list"
  w_stdout :: "string list"

definition GetData :: "'p World \<Rightarrow> string \<rightharpoonup> val" where
  "GetData w = e_data (w_event w)"

definition llm_Call :: "'p ModelProvider \<Rightarrow> Prompt \<Rightarrow> 'p World \<Rightarrow> (string + Response) \<times> 'p World" where
  "llm_Call llm prompt w =
     (case llm (w_llm w) prompt of
        (r, p') \<Rightarrow> (r, w\<lparr>w_llm := p', w_calls := w_calls w @ [prompt]\<rparr>))"

definition Printf :: "string \<Rightarrow> 'p World \<Rightarrow> 'p World" where
  "Printf s w = w\<lparr>w_stdout := w_stdout w @ [s]\<rparr>"

type_synonym 'p AgentHandler = "State \<Rightarrow> 'p World \<Rightarrow> (AgentResult \<times> error option) \<times> 'p World"

section \<open>The three agents\<close>

definition ProcessorPrompt :: "string \<Rightarrow> Prompt" where
  "ProcessorPrompt input =
     \<lparr>System = ''You are a processor agent. Extract and organize key information from user requests.'',
      User = ''Process this request and extract key information: '' @ input\<rparr>"

definition EnhancerPrompt :: "val \<Rightarrow> Prompt" where
  "EnhancerPrompt processed =
     \<lparr>System = ''You are an enhancer agent. Add insights, context, and additional valuable information.'',
      User = ''Enhance this response with additional insights: '' @ fmt_v processed\<rparr>"

definition FormatterPrompt :: "val \<Rightarrow> Prompt" where
  "FormatterPrompt enhanced =
     \<lparr>System = ''You are a formatter agent. Present information in a clear, professional, and well-structured manner.'',
      User = ''Format this response in a clear, professional manner: '' @ fmt_v enhanced\<rparr>"

text \<open>\<^verbatim>\<open>func (a *ProcessorAgent) Run(ctx, event, state)\<close>\<close>

definition ProcessorAgent_Run :: "'p ModelProvider \<Rightarrow> 'p AgentHandler" where
  "ProcessorAgent_Run llm state w =
     (case GetData w ''input'' of
        Some (VString input) \<Rightarrow>
          (case llm_Call llm (ProcessorPrompt input) w of
             (Inl err, w') \<Rightarrow> ((AgentResult_zero, Some (CallError err)), w')
           | (Inr response, w') \<Rightarrow>
               (let outputState = NewState;
                    outputState = Set outputState ''processed'' (VString (Content response));
                    outputState = Set outputState ''message'' (VString (Content response));
                    outputState = SetMeta outputState RouteMetadataKey ''enhancer''
                in ((\<lparr>OutputState = Some outputState\<rparr>, None), w')))
      | _ \<Rightarrow> ((AgentResult_zero, Some (Errorf ''no input provided'')), w))"

text \<open>\<^verbatim>\<open>func (a *EnhancerAgent) Run(ctx, event, state)\<close>\<close>

definition EnhancerAgent_Run :: "'p ModelProvider \<Rightarrow> 'p AgentHandler" where
  "EnhancerAgent_Run llm state w =
     (case (case Get state ''processed'' of
              Some processedData \<Rightarrow> Some processedData
            | None \<Rightarrow> (case Get state ''message'' of
                         Some msg \<Rightarrow> Some msg
                       | None \<Rightarrow> None)) of
        None \<Rightarrow> ((AgentResult_zero, Some (Errorf ''no processed data found'')), w)
      | Some processed \<Rightarrow>
          (case llm_Call llm (EnhancerPrompt processed) w of
             (Inl err, w') \<Rightarrow> ((AgentResult_zero, Some (CallError err)), w')
           | (Inr response, w') \<Rightarrow>
               (let outputState = NewState;
                    outputState = Set outputState ''enhanced'' (VString (Content response));
                    outputState = Set outputState ''message'' (VString (Content response));
                    outputState = SetMeta outputState RouteMetadataKey ''formatter''
                in ((\<lparr>OutputState = Some outputState\<rparr>, None), w'))))"

text \<open>
  \<^verbatim>\<open>func (a *FormatterAgent) Run(ctx, event, state)\<close>. The line it prints starts with
  a line feed and the four bytes of U+1F4DD.
\<close>

definition FormatterAgent_Run :: "'p ModelProvider \<Rightarrow> 'p AgentHandler" where
  "FormatterAgent_Run llm state w =
     (case (case Get state ''enhanced'' of
              Some enhancedData \<Rightarrow> Some enhancedData
            | None \<Rightarrow> (case Get state ''message'' of
                         Some msg \<Rightarrow> Some msg
                       | None \<Rightarrow> None)) of
        None \<Rightarrow> ((AgentResult_zero, Some (Errorf ''no enhanced data found'')), w)
      | Some enhanced \<Rightarrow>
          (case llm_Call llm (FormatterPrompt enhanced) w of
             (Inl err, w') \<Rightarrow> ((AgentResult_zero, Some (CallError err)), w')
           | (Inr response, w') \<Rightarrow>
               (let outputState = NewState;
                    outputState = Set outputState ''final_response'' (VString (Content response));
                    outputState = Set outputState ''message'' (VString (Content response));
                    w'' = Printf ([CHR 0x0A, CHR 0xF0, CHR 0x9F, CHR 0x93, CHR 0x9D]
                                  @ '' Final Response:'' @ [CHR 0x0A]
                                  @ Content response @ [CHR 0x0A]) w'
                in ((\<lparr>OutputState = Some outputState\<rparr>, None), w''))))"

text \<open>The agents \<^verbatim>\<open>main\<close> creates, by name, all with the one provider.\<close>

definition main_agents :: "'p ModelProvider \<Rightarrow> string \<rightharpoonup> 'p AgentHandler" where
  "main_agents provider =
     [''processor'' \<mapsto> ProcessorAgent_Run provider,
      ''enhancer'' \<mapsto> EnhancerAgent_Run provider,
      ''formatter'' \<mapsto> FormatterAgent_Run provider]"

section \<open>The orchestration core, from the specification\<close>

text \<open>
  Modelled from the spec: the error kinds of section 7 for an agent's error. The agents
  build an error of their own only when an expected input is missing; the other error
  they return is the one of the provider's call.
\<close>

datatype error_kind = ValidationError | CapabilityError

fun kind_of :: "error \<Rightarrow> error_kind" where
  "kind_of (Errorf msg) = ValidationError"
| "kind_of (CallError msg) = CapabilityError"

text \<open>
  Modelled from the spec: the Router of section 4.2, whose code is in the framework and
  not in the sources. It reads the routing directive of a state: present and non-empty,
  that name and true; otherwise false.
\<close>

definition NextAgent :: "State \<Rightarrow> string \<times> bool" where
  "NextAgent state =
     (case s_meta state RouteMetadataKey of
        Some name \<Rightarrow> if name \<noteq> [] then (name, True) else ([], False)
      | None \<Rightarrow> ([], False))"

text \<open>
  Modelled from the spec: the errors of a run (section 7 and the design notes). An
  agent's error is reported with the name of the agent it comes from.
\<close>

datatype runner_error =
    AgentError string error
  | RoutingLoopError
  | UnknownAgentError string
  | NotRunningError

datatype outcome = Completed | Failed runner_error

text \<open>
  Modelled from the spec: an agent's output state is merged into the running state, or
  replaces it (section 3 leaves both open). A merge keeps the last write to a key.
\<close>

datatype state_policy = Merge | Replace

fun update_state :: "state_policy \<Rightarrow> State \<Rightarrow> State \<Rightarrow> State" where
  "update_state Replace st out = out"
| "update_state Merge st out =
     \<lparr>s_fields = s_fields st ++ s_fields out, s_meta = s_meta st ++ s_meta out\<rparr>"

text \<open>The state a result carries; a result without one counts as the empty state.\<close>

definition result_state :: "AgentResult \<Rightarrow> State" where
  "result_state res = (case OutputState res of Some s \<Rightarrow> s | None \<Rightarrow> NewState)"

text \<open>
  Modelled from the spec: what the Runner is configured with (sections 3, 4.3 and 6): the
  registered agents by name, the step limit, the default starting agent and the policy
  for the running state.
\<close>

record 'p Pipeline =
  agents :: "string \<rightharpoonup> 'p AgentHandler"
  step_limit :: nat
  default_agent :: string
  policy :: state_policy

text \<open>
  What the caller sees of one event's run: how it ended, the running state, the agents
  invoked in order, and the world after it.
\<close>

record 'p RunResult =
  run_outcome :: outcome
  run_state :: State
  run_invoked :: "string list"
  run_world :: "'p World"

text \<open>
  Modelled from the spec: the dispatch loop of section 4.3, whose code is in the
  framework and not in the sources. \<open>hops\<close> counts the agents invoked so far. The agent
  named is looked up (an unknown name fails closed) and invoked on the running state;
  its error ends the run; otherwise its returned state updates the running state and the
  Router is asked for the next agent. The step limit is checked before every hop.
\<close>

function dispatch_loop ::
  "'p Pipeline \<Rightarrow> nat \<Rightarrow> string \<Rightarrow> State \<Rightarrow> string list \<Rightarrow> 'p World \<Rightarrow> 'p RunResult" where
  "dispatch_loop cfg hops name st trace w =
     (if step_limit cfg \<le> hops then
        \<lparr>run_outcome = Failed RoutingLoopError, run_state = st, run_invoked = trace, run_world = w\<rparr>
      else
        (case agents cfg name of
           None \<Rightarrow>
             \<lparr>run_outcome = Failed (UnknownAgentError name), run_state = st,
              run_invoked = trace, run_world = w\<rparr>
         | Some agent \<Rightarrow>
             (case agent st w of
                ((res, Some err), w') \<Rightarrow>
                  \<lparr>run_outcome = Failed (AgentError name err), run_state = st,
                   run_invoked = trace @ [name], run_world = w'\<rparr>
              | ((res, None), w') \<Rightarrow>
                  (case NextAgent (result_state res) of
                     (next, True) \<Rightarrow>
                       dispatch_loop cfg (Suc hops) next
                         (update_state (policy cfg) st (result_state res)) (trace @ [name]) w'
                   | (next, False) \<Rightarrow>
                       \<lparr>run_outcome = Completed,
                        run_state = update_state (policy cfg) st (result_state res),
                        run_invoked = trace @ [name], run_world = w'\<rparr>))))"
  by pat_completeness auto
termination
  by (relation "measure (\<lambda>(cfg, hops, name, st, trace, w). step_limit cfg - hops)") auto

declare dispatch_loop.simps [simp del]

text \<open>
  Modelled from the spec: the starting agent is looked up by the event's routing
  metadata, or is the configured default.
\<close>

definition start_agent :: "'p Pipeline \<Rightarrow> Event \<Rightarrow> string" where
  "start_agent cfg e =
     (case e_meta e RouteMetadataKey of Some name \<Rightarrow> name | None \<Rightarrow> default_agent cfg)"

definition dispatch :: "'p Pipeline \<Rightarrow> State \<Rightarrow> 'p World \<Rightarrow> 'p RunResult" where
  "dispatch cfg st w = dispatch_loop cfg 0 (start_agent cfg (w_event w)) st [] w"

text \<open>
  Modelled from the spec: the Runner's lifecycle of section 4.3, whose code is in the
  framework and not in the sources. The states are Idle, Running and Stopped, with the
  transitions Idle to Running and Running to Stopped of the specification's diagram:
  \<^verbatim>\<open>Start\<close> takes an idle Runner to running and leaves any other as it is, so that a
  stopped Runner stays stopped; \<^verbatim>\<open>Stop\<close> takes the Runner to stopped; \<^verbatim>\<open>Emit\<close>
  enqueues the event when the Runner is running and fails with NotRunningError otherwise.
\<close>

datatype runner_status = Idle | Running | Stopped

record Runner =
  status :: runner_status
  queue :: "Event list"

definition NewRunner :: Runner where
  "NewRunner = \<lparr>status = Idle, queue = []\<rparr>"

definition Start :: "Runner \<Rightarrow> Runner" where
  "Start r = (if status r = Idle then r\<lparr>status := Running\<rparr> else r)"

definition Stop :: "Runner \<Rightarrow> Runner" where
  "Stop r = r\<lparr>status := Stopped\<rparr>"

definition Emit :: "Runner \<Rightarrow> Event \<Rightarrow> runner_error option \<times> Runner" where
  "Emit r e =
     (if status r = Running then (None, r\<lparr>queue := queue r @ [e]\<rparr>)
      else (Some NotRunningError, r))"

text \<open>The calls a caller can make on a Runner, and a sequence of them.\<close>

datatype runner_call = CallStart | CallStop | CallEmit Event

fun call :: "Runner \<Rightarrow> runner_call \<Rightarrow> Runner" where
  "call r CallStart = Start r"
| "call r CallStop = Stop r"
| "call r (CallEmit e) = snd (Emit r e)"

definition calls :: "Runner \<Rightarrow> runner_call list \<Rightarrow> Runner" where
  "calls r cs = foldl call r cs"

section \<open>Concrete inputs\<close>

text \<open>
  The event of the specification's scenario, a world holding it whose provider state is
  a call counter, and two providers: one whose every call fails, and one that answers an
  agent's prompt with the text the agent put into it followed by the agent's name.
\<close>

definition demo_event :: Event where
  "demo_event =
     \<lparr>e_id = ''evt-1'', e_data = [''input'' \<mapsto> VString ''X''],
      e_meta = [''route'' \<mapsto> ''processor'']\<rparr>"

definition demo_world :: "nat World" where
  "demo_world = \<lparr>w_event = demo_event, w_llm = 0, w_calls = [], w_stdout = []\<rparr>"

definition failing_llm :: "nat ModelProvider" where
  "failing_llm n q = (Inl ''provider unavailable'', Suc n)"

definition name_llm :: "nat ModelProvider" where
  "name_llm n q =
     (Inr \<lparr>Content =
        (if System q = System (ProcessorPrompt []) then
           drop (length (User (ProcessorPrompt []))) (User q) @ '':processor''
         else if System q = System (EnhancerPrompt (VString [])) then
           drop (length (User (EnhancerPrompt (VString [])))) (User q) @ '':enhancer''
         else
           drop (length (User (FormatterPrompt (VString [])))) (User q) @ '':formatter'')\<rparr>,
      Suc n)"

text \<open>
  A world whose event carries no data, and the pipeline of \<^verbatim>\<open>main\<close>: its three agents
  with the name-appending provider, under a step limit of five.
\<close>

definition bare_world :: "nat World" where
  "bare_world =
     \<lparr>w_event = \<lparr>e_id = ''evt-2'', e_data = Map.empty, e_meta = [''route'' \<mapsto> ''processor'']\<rparr>,
      w_llm = 0, w_calls = [], w_stdout = []\<rparr>"

definition demo_pipeline :: "nat Pipeline" where
  "demo_pipeline =
     \<lparr>agents = main_agents name_llm, step_limit = 5, default_agent = ''processor'',
      policy = Merge\<rparr>"

text \<open>
  A second emission of the same data: another event id, and a world in which the provider
  has been used before and something has been printed.
\<close>

definition rerun_world :: "nat World" where
  "rerun_world =
     \<lparr>w_event = \<lparr>e_id = ''evt-3'', e_data = [''input'' \<mapsto> VString ''X''],
                 e_meta = [''route'' \<mapsto> ''processor'']\<rparr>,
      w_llm = 7, w_calls = [ProcessorPrompt ''earlier''], w_stdout = [''earlier'']\<rparr>"

text \<open>
  A provider that fails for EnhancerAgent's prompt and otherwise appends the agent's name,
  the pipeline of \<^verbatim>\<open>main\<close> with it, and the pipeline of \<^verbatim>\<open>main\<close> under a step limit of
  two.
\<close>

definition enhancer_down_llm :: "nat ModelProvider" where
  "enhancer_down_llm n q =
     (if System q = System (EnhancerPrompt (VString [])) then (Inl ''provider unavailable'', Suc n)
      else name_llm n q)"

definition enhancer_down_pipeline :: "nat Pipeline" where
  "enhancer_down_pipeline =
     \<lparr>agents = main_agents enhancer_down_llm, step_limit = 5, default_agent = ''processor'',
      policy = Merge\<rparr>"

definition short_pipeline :: "nat Pipeline" where
  "short_pipeline = demo_pipeline\<lparr>step_limit := 2\<rparr>"

section \<open>What each agent returns\<close>

lemma ProcessorAgent_Run_missing:
  "\<forall>s. GetData w ''input'' \<noteq> Some (VString s) \<Longrightarrow>
   ProcessorAgent_Run llm st w = ((AgentResult_zero, Some (Errorf ''no input provided'')), w)"
  by (auto simp: ProcessorAgent_Run_def split: option.splits val.splits)

lemma ProcessorAgent_Run_call:
  "GetData w ''input'' = Some (VString x) \<Longrightarrow>
   ProcessorAgent_Run llm st w =
     (case llm_Call llm (ProcessorPrompt x) w of
        (Inl err, w') \<Rightarrow> ((AgentResult_zero, Some (CallError err)), w')
      | (Inr response, w') \<Rightarrow>
          ((\<lparr>OutputState = Some
               \<lparr>s_fields = [''processed'' \<mapsto> VString (Content response),
                            ''message'' \<mapsto> VString (Content response)],
                s_meta = [RouteMetadataKey \<mapsto> ''enhancer'']\<rparr>\<rparr>, None), w'))"
  by (simp add: ProcessorAgent_Run_def Let_def NewState_def Set_def SetMeta_def
      split: prod.splits sum.splits)

lemma EnhancerAgent_Run_missing:
  "Get st ''processed'' = None \<Longrightarrow> Get st ''message'' = None \<Longrightarrow>
   EnhancerAgent_Run llm st w = ((AgentResult_zero, Some (Errorf ''no processed data found'')), w)"
  by (simp add: EnhancerAgent_Run_def)

lemma EnhancerAgent_Run_call:
  "Get st ''processed'' = Some v \<or> Get st ''processed'' = None \<and> Get st ''message'' = Some v \<Longrightarrow>
   EnhancerAgent_Run llm st w =
     (case llm_Call llm (EnhancerPrompt v) w of
        (Inl err, w') \<Rightarrow> ((AgentResult_zero, Some (CallError err)), w')
      | (Inr response, w') \<Rightarrow>
          ((\<lparr>OutputState = Some
               \<lparr>s_fields = [''enhanced'' \<mapsto> VString (Content response),
                            ''message'' \<mapsto> VString (Content response)],
                s_meta = [RouteMetadataKey \<mapsto> ''formatter'']\<rparr>\<rparr>, None), w'))"
  by (auto simp: EnhancerAgent_Run_def Let_def NewState_def Set_def SetMeta_def
      split: prod.splits sum.splits)

lemma FormatterAgent_Run_missing:
  "Get st ''enhanced'' = None \<Longrightarrow> Get st ''message'' = None \<Longrightarrow>
   FormatterAgent_Run llm st w = ((AgentResult_zero, Some (Errorf ''no enhanced data found'')), w)"
  by (simp add: FormatterAgent_Run_def)

lemma FormatterAgent_Run_call:
  "Get st ''enhanced'' = Some v \<or> Get st ''enhanced'' = None \<and> Get st ''message'' = Some v \<Longrightarrow>
   FormatterAgent_Run llm st w =
     (case llm_Call llm (FormatterPrompt v) w of
        (Inl err, w') \<Rightarrow> ((AgentResult_zero, Some (CallError err)), w')
      | (Inr response, w') \<Rightarrow>
          ((\<lparr>OutputState = Some
               \<lparr>s_fields = [''final_response'' \<mapsto> VString (Content response),
                            ''message'' \<mapsto> VString (Content response)],
                s_meta = Map.empty\<rparr>\<rparr>, None),
           Printf ([CHR 0x0A, CHR 0xF0, CHR 0x9F, CHR 0x93, CHR 0x9D]
                   @ '' Final Response:'' @ [CHR 0x0A] @ Content response @ [CHR 0x0A]) w'))"
  by (auto simp: FormatterAgent_Run_def Let_def NewState_def Set_def SetMeta_def
      split: prod.splits sum.splits)

lemma dispatch_loop_limit:
  "step_limit cfg \<le> hops \<Longrightarrow>
   dispatch_loop cfg hops name st trace w =
     \<lparr>run_outcome = Failed RoutingLoopError, run_state = st, run_invoked = trace, run_world = w\<rparr>"
  by (simp add: dispatch_loop.simps)

lemma dispatch_loop_unknown:
  "hops < step_limit cfg \<Longrightarrow> agents cfg name = None \<Longrightarrow>
   dispatch_loop cfg hops name st trace w =
     \<lparr>run_outcome = Failed (UnknownAgentError name), run_state = st, run_invoked = trace, run_world = w\<rparr>"
  by (simp add: dispatch_loop.simps)

lemma dispatch_loop_agent_error:
  "hops < step_limit cfg \<Longrightarrow> agents cfg name = Some agent \<Longrightarrow>
   agent st w = ((res, Some err), w') \<Longrightarrow>
   dispatch_loop cfg hops name st trace w =
     \<lparr>run_outcome = Failed (AgentError name err), run_state = st,
      run_invoked = trace @ [name], run_world = w'\<rparr>"
  by (simp add: dispatch_loop.simps)

lemma dispatch_loop_next:
  "hops < step_limit cfg \<Longrightarrow> agents cfg name = Some agent \<Longrightarrow>
   agent st w = ((res, None), w') \<Longrightarrow> NextAgent (result_state res) = (nxt, True) \<Longrightarrow>
   dispatch_loop cfg hops name st trace w =
     dispatch_loop cfg (Suc hops) nxt (update_state (policy cfg) st (result_state res))
       (trace @ [name]) w'"
  by (subst dispatch_loop.simps) simp

lemma dispatch_loop_done:
  "hops < step_limit cfg \<Longrightarrow> agents cfg name = Some agent \<Longrightarrow>
   agent st w = ((res, None), w') \<Longrightarrow> NextAgent (result_state res) = (nxt, False) \<Longrightarrow>
   dispatch_loop cfg hops name st trace w =
     \<lparr>run_outcome = Completed, run_state = update_state (policy cfg) st (result_state res),
      run_invoked = trace @ [name], run_world = w'\<rparr>"
  by (subst dispatch_loop.simps) simp

section \<open>Failure leaves no output\<close>

lemma ProcessorAgent_Run_error_zero:
  "snd (fst (ProcessorAgent_Run llm state w)) \<noteq> None \<Longrightarrow>
   fst (fst (ProcessorAgent_Run llm state w)) = AgentResult_zero"
  by (auto simp: ProcessorAgent_Run_def Let_def split: option.splits val.splits prod.splits sum.splits)

lemma EnhancerAgent_Run_error_zero:
  "snd (fst (EnhancerAgent_Run llm state w)) \<noteq> None \<Longrightarrow>
   fst (fst (EnhancerAgent_Run llm state w)) = AgentResult_zero"
  by (auto simp: EnhancerAgent_Run_def Let_def split: option.splits prod.splits sum.splits)

lemma FormatterAgent_Run_error_zero:
  "snd (fst (FormatterAgent_Run llm state w)) \<noteq> None \<Longrightarrow>
   fst (fst (FormatterAgent_Run llm state w)) = AgentResult_zero"
  by (auto simp: FormatterAgent_Run_def Let_def split: option.splits prod.splits sum.splits)

text \<open>
  C10. Whenever \<^verbatim>\<open>Run\<close> of ProcessorAgent, EnhancerAgent or FormatterAgent returns an
  error, for a missing input or for a failed provider call, the result returned with it
  is the zero \<^verbatim>\<open>AgentResult\<close>: it has no output state, so no data field and no routing
  directive.
\<close>

theorem failed_run_returns_zero_result:
  "(snd (fst (ProcessorAgent_Run llm state w)) \<noteq> None \<longrightarrow>
      fst (fst (ProcessorAgent_Run llm state w)) = AgentResult_zero) \<and>
   (snd (fst (EnhancerAgent_Run llm state w)) \<noteq> None \<longrightarrow>
      fst (fst (EnhancerAgent_Run llm state w)) = AgentResult_zero) \<and>
   (snd (fst (FormatterAgent_Run llm state w)) \<noteq> None \<longrightarrow>
      fst (fst (FormatterAgent_Run llm state w)) = AgentResult_zero) \<and>
   OutputState AgentResult_zero = None"
  using ProcessorAgent_Run_error_zero [of llm state w]
    EnhancerAgent_Run_error_zero [of llm state w]
    FormatterAgent_Run_error_zero [of llm state w]
  by (simp add: AgentResult_zero_def)

theorem failed_run_returns_zero_result_witness:
  "snd (fst (ProcessorAgent_Run failing_llm NewState demo_world)) \<noteq> None \<and>
   fst (fst (ProcessorAgent_Run failing_llm NewState demo_world)) = AgentResult_zero \<and>
   snd (fst (EnhancerAgent_Run failing_llm NewState demo_world)) \<noteq> None \<and>
   fst (fst (EnhancerAgent_Run failing_llm NewState demo_world)) = AgentResult_zero \<and>
   snd (fst (FormatterAgent_Run failing_llm NewState demo_world)) \<noteq> None \<and>
   fst (fst (FormatterAgent_Run failing_llm NewState demo_world)) = AgentResult_zero"
  using failed_run_returns_zero_result [of failing_llm NewState demo_world]
  by (simp add: ProcessorAgent_Run_def EnhancerAgent_Run_def FormatterAgent_Run_def
      GetData_def demo_world_def demo_event_def llm_Call_def failing_llm_def Get_def NewState_def)

section \<open>The event is only read\<close>

lemma ProcessorAgent_Run_event: "w_event (snd (ProcessorAgent_Run llm st w)) = w_event w"
  by (auto simp: ProcessorAgent_Run_def Let_def llm_Call_def
      split: option.splits val.splits prod.splits sum.splits)

lemma EnhancerAgent_Run_event: "w_event (snd (EnhancerAgent_Run llm st w)) = w_event w"
  by (auto simp: EnhancerAgent_Run_def Let_def llm_Call_def
      split: option.splits prod.splits sum.splits)

lemma FormatterAgent_Run_event: "w_event (snd (FormatterAgent_Run llm st w)) = w_event w"
  by (auto simp: FormatterAgent_Run_def Let_def llm_Call_def Printf_def
      split: option.splits prod.splits sum.splits)

text \<open>
  C7. An event is not changed by an agent: after \<^verbatim>\<open>Run\<close> of ProcessorAgent, of
  EnhancerAgent and of FormatterAgent, whatever the provider, the state and the outcome,
  the event object is the one from before the call, with the same id, the same data
  mapping and the same metadata mapping.
\<close>

theorem run_leaves_event_unchanged:
  "w_event (snd (ProcessorAgent_Run llm st w)) = w_event w \<and>
   w_event (snd (EnhancerAgent_Run llm st w)) = w_event w \<and>
   w_event (snd (FormatterAgent_Run llm st w)) = w_event w"
  by (simp add: ProcessorAgent_Run_event EnhancerAgent_Run_event FormatterAgent_Run_event)

section \<open>A missing input\<close>

text \<open>
  C3. When the event data holds no string under \<^verbatim>\<open>input\<close>, ProcessorAgent's \<^verbatim>\<open>Run\<close>
  returns the zero result with the error it builds for a missing input, of kind
  ValidationError, and the world is the one from before the call: the provider has not
  been called. The same holds for EnhancerAgent when the state has neither \<^verbatim>\<open>processed\<close>
  nor \<^verbatim>\<open>message\<close>, and for FormatterAgent when it has neither \<^verbatim>\<open>enhanced\<close> nor
  \<^verbatim>\<open>message\<close>. A dispatch loop that has reached such an agent below its step limit ends
  the run there as failed: that agent is the last one invoked.
\<close>

theorem missing_input_is_validation_error:
  assumes "hops < step_limit cfg"
  shows
    "((\<forall>s. e_data (w_event w) ''input'' \<noteq> Some (VString s)) \<longrightarrow>
        ProcessorAgent_Run llm st w =
          ((AgentResult_zero, Some (Errorf ''no input provided'')), w) \<and>
        (agents cfg name = Some (ProcessorAgent_Run llm) \<longrightarrow>
           dispatch_loop cfg hops name st trace w =
             \<lparr>run_outcome = Failed (AgentError name (Errorf ''no input provided'')),
              run_state = st, run_invoked = trace @ [name], run_world = w\<rparr>)) \<and>
     (Get st ''processed'' = None \<and> Get st ''message'' = None \<longrightarrow>
        EnhancerAgent_Run llm st w =
          ((AgentResult_zero, Some (Errorf ''no processed data found'')), w) \<and>
        (agents cfg name = Some (EnhancerAgent_Run llm) \<longrightarrow>
           dispatch_loop cfg hops name st trace w =
             \<lparr>run_outcome = Failed (AgentError name (Errorf ''no processed data found'')),
              run_state = st, run_invoked = trace @ [name], run_world = w\<rparr>)) \<and>
     (Get st ''enhanced'' = None \<and> Get st ''message'' = None \<longrightarrow>
        FormatterAgent_Run llm st w =
          ((AgentResult_zero, Some (Errorf ''no enhanced data found'')), w) \<and>
        (agents cfg name = Some (FormatterAgent_Run llm) \<longrightarrow>
           dispatch_loop cfg hops name st trace w =
             \<lparr>run_outcome = Failed (AgentError name (Errorf ''no enhanced data found'')),
              run_state = st, run_invoked = trace @ [name], run_world = w\<rparr>)) \<and>
     (\<forall>msg. kind_of (Errorf msg) = ValidationError)"
proof -
  have p: "ProcessorAgent_Run llm st w =
      ((AgentResult_zero, Some (Errorf ''no input provided'')), w)"
    if "\<forall>s. e_data (w_event w) ''input'' \<noteq> Some (VString s)"
    using that by (intro ProcessorAgent_Run_missing) (simp add: GetData_def)
  have e: "EnhancerAgent_Run llm st w =
      ((AgentResult_zero, Some (Errorf ''no processed data found'')), w)"
    if "Get st ''processed'' = None \<and> Get st ''message'' = None"
    using that by (simp add: EnhancerAgent_Run_missing)
  have f: "FormatterAgent_Run llm st w =
      ((AgentResult_zero, Some (Errorf ''no enhanced data found'')), w)"
    if "Get st ''enhanced'' = None \<and> Get st ''message'' = None"
    using that by (simp add: FormatterAgent_Run_missing)
  show ?thesis
    using assms p e f
    by (auto simp: dispatch_loop_agent_error)
qed

theorem missing_input_is_validation_error_witness:
  "ProcessorAgent_Run name_llm NewState bare_world =
     ((AgentResult_zero, Some (Errorf ''no input provided'')), bare_world) \<and>
   dispatch_loop demo_pipeline 0 ''processor'' NewState [] bare_world =
     \<lparr>run_outcome = Failed (AgentError ''processor'' (Errorf ''no input provided'')),
      run_state = NewState, run_invoked = [''processor''], run_world = bare_world\<rparr> \<and>
   EnhancerAgent_Run name_llm NewState demo_world =
     ((AgentResult_zero, Some (Errorf ''no processed data found'')), demo_world) \<and>
   dispatch_loop demo_pipeline 0 ''enhancer'' NewState [] demo_world =
     \<lparr>run_outcome = Failed (AgentError ''enhancer'' (Errorf ''no processed data found'')),
      run_state = NewState, run_invoked = [''enhancer''], run_world = demo_world\<rparr> \<and>
   FormatterAgent_Run name_llm NewState demo_world =
     ((AgentResult_zero, Some (Errorf ''no enhanced data found'')), demo_world) \<and>
   dispatch_loop demo_pipeline 0 ''formatter'' NewState [] demo_world =
     \<lparr>run_outcome = Failed (AgentError ''formatter'' (Errorf ''no enhanced data found'')),
      run_state = NewState, run_invoked = [''formatter''], run_world = demo_world\<rparr> \<and>
   kind_of (Errorf ''no input provided'') = ValidationError"
proof -
  have lim: "0 < step_limit demo_pipeline"
    by (simp add: demo_pipeline_def)
  have nodata: "\<forall>s. e_data (w_event bare_world) ''input'' \<noteq> Some (VString s)"
    by (simp add: bare_world_def)
  have nostate: "Get NewState ''processed'' = None" "Get NewState ''enhanced'' = None"
    "Get NewState ''message'' = None"
    by (simp_all add: Get_def NewState_def)
  have reg: "agents demo_pipeline ''processor'' = Some (ProcessorAgent_Run name_llm)"
    "agents demo_pipeline ''enhancer'' = Some (EnhancerAgent_Run name_llm)"
    "agents demo_pipeline ''formatter'' = Some (FormatterAgent_Run name_llm)"
    by (simp_all add: demo_pipeline_def main_agents_def)
  show ?thesis
    using missing_input_is_validation_error
        [OF lim, where w = bare_world and llm = name_llm and st = NewState
          and name = "''processor''" and trace = "[]"]
      missing_input_is_validation_error
        [OF lim, where w = demo_world and llm = name_llm and st = NewState
          and name = "''enhancer''" and trace = "[]"]
      missing_input_is_validation_error
        [OF lim, where w = demo_world and llm = name_llm and st = NewState
          and name = "''formatter''" and trace = "[]"]
      nodata nostate reg
    by simp
qed

section \<open>The generic message key\<close>

lemma EnhancerAgent_Run_reads:
  assumes "Get st ''processed'' = Some v \<or> Get st ''processed'' = None \<and> Get st ''message'' = Some v"
  shows "w_calls (snd (EnhancerAgent_Run llm st w)) = w_calls w @ [EnhancerPrompt v]"
    and "snd (fst (EnhancerAgent_Run llm st w)) \<noteq> Some (Errorf msg)"
  using assms
  by (auto simp: EnhancerAgent_Run_call llm_Call_def split: prod.splits sum.splits)

lemma FormatterAgent_Run_reads:
  assumes "Get st ''enhanced'' = Some v \<or> Get st ''enhanced'' = None \<and> Get st ''message'' = Some v"
  shows "w_calls (snd (FormatterAgent_Run llm st w)) = w_calls w @ [FormatterPrompt v]"
    and "snd (fst (FormatterAgent_Run llm st w)) \<noteq> Some (Errorf msg)"
  using assms
  by (auto simp: FormatterAgent_Run_call llm_Call_def Printf_def split: prod.splits sum.splits)

lemma ProcessorAgent_Run_writes:
  assumes "ProcessorAgent_Run llm st w = ((res, None), w')"
  shows "\<exists>s c. OutputState res = Some s \<and> Get s ''processed'' = Some (VString c) \<and>
           Get s ''message'' = Some (VString c) \<and>
           s_meta s RouteMetadataKey = Some ''enhancer''"
  using assms
  by (auto simp: ProcessorAgent_Run_def Let_def NewState_def Set_def SetMeta_def Get_def
      AgentResult_zero_def split: option.splits val.splits prod.splits sum.splits)

lemma EnhancerAgent_Run_writes:
  assumes "EnhancerAgent_Run llm st w = ((res, None), w')"
  shows "\<exists>s c. OutputState res = Some s \<and> Get s ''enhanced'' = Some (VString c) \<and>
           Get s ''message'' = Some (VString c) \<and>
           s_meta s RouteMetadataKey = Some ''formatter''"
  using assms
  by (auto simp: EnhancerAgent_Run_def Let_def NewState_def Set_def SetMeta_def Get_def
      AgentResult_zero_def split: option.splits prod.splits sum.splits)

lemma FormatterAgent_Run_writes:
  assumes "FormatterAgent_Run llm st w = ((res, None), w')"
  shows "\<exists>s c. OutputState res = Some s \<and> Get s ''final_response'' = Some (VString c) \<and>
           Get s ''message'' = Some (VString c) \<and>
           s_meta s RouteMetadataKey = None"
  using assms
  by (auto simp: FormatterAgent_Run_def Let_def NewState_def Set_def SetMeta_def Get_def
      AgentResult_zero_def split: option.splits prod.splits sum.splits)

lemma Get_map_le: "Get s k = Some v \<Longrightarrow> s_fields s \<subseteq>\<^sub>m s_fields t \<Longrightarrow> Get t k = Some v"
  by (auto simp: Get_def map_le_def dom_def)

text \<open>
  C9. EnhancerAgent reads its input from \<^verbatim>\<open>processed\<close> when the state has it, and from
  \<^verbatim>\<open>message\<close> when it has no \<^verbatim>\<open>processed\<close>: in both cases it does not fail for a missing
  input and calls the provider with the prompt built from that value. FormatterAgent does
  the same with \<^verbatim>\<open>enhanced\<close> and \<^verbatim>\<open>message\<close>. Every agent that succeeds writes its own
  output key and \<^verbatim>\<open>message\<close> with the same value, so EnhancerAgent finds an input in any
  state that holds what ProcessorAgent wrote, and FormatterAgent in any state that holds
  what EnhancerAgent wrote.
\<close>

theorem message_key_is_fallback_input:
  "(Get st ''processed'' = Some v \<or> Get st ''processed'' = None \<and> Get st ''message'' = Some v \<longrightarrow>
      w_calls (snd (EnhancerAgent_Run llm st w)) = w_calls w @ [EnhancerPrompt v] \<and>
      (\<forall>msg. snd (fst (EnhancerAgent_Run llm st w)) \<noteq> Some (Errorf msg))) \<and>
   (Get st ''enhanced'' = Some v \<or> Get st ''enhanced'' = None \<and> Get st ''message'' = Some v \<longrightarrow>
      w_calls (snd (FormatterAgent_Run llm st w)) = w_calls w @ [FormatterPrompt v] \<and>
      (\<forall>msg. snd (fst (FormatterAgent_Run llm st w)) \<noteq> Some (Errorf msg))) \<and>
   (ProcessorAgent_Run llm st w = ((res, None), w') \<longrightarrow>
      (\<exists>s c. OutputState res = Some s \<and> Get s ''processed'' = Some c \<and> Get s ''message'' = Some c \<and>
         (\<forall>t u msg. s_fields s \<subseteq>\<^sub>m s_fields t \<longrightarrow>
            snd (fst (EnhancerAgent_Run llm t u)) \<noteq> Some (Errorf msg)))) \<and>
   (EnhancerAgent_Run llm st w = ((res, None), w') \<longrightarrow>
      (\<exists>s c. OutputState res = Some s \<and> Get s ''enhanced'' = Some c \<and> Get s ''message'' = Some c \<and>
         (\<forall>t u msg. s_fields s \<subseteq>\<^sub>m s_fields t \<longrightarrow>
            snd (fst (FormatterAgent_Run llm t u)) \<noteq> Some (Errorf msg)))) \<and>
   (FormatterAgent_Run llm st w = ((res, None), w') \<longrightarrow>
      (\<exists>s c. OutputState res = Some s \<and> Get s ''final_response'' = Some c \<and>
         Get s ''message'' = Some c))"
proof (intro conjI impI)
  assume "ProcessorAgent_Run llm st w = ((res, None), w')"
  then obtain s c where s: "OutputState res = Some s" "Get s ''processed'' = Some (VString c)"
      "Get s ''message'' = Some (VString c)"
    using ProcessorAgent_Run_writes by blast
  have "snd (fst (EnhancerAgent_Run llm t u)) \<noteq> Some (Errorf msg)"
    if "s_fields s \<subseteq>\<^sub>m s_fields t" for t u msg
    using EnhancerAgent_Run_reads(2) [of t "VString c"] Get_map_le [OF s(2) that] by simp
  with s show "\<exists>s c. OutputState res = Some s \<and> Get s ''processed'' = Some c \<and>
      Get s ''message'' = Some c \<and>
      (\<forall>t u msg. s_fields s \<subseteq>\<^sub>m s_fields t \<longrightarrow>
         snd (fst (EnhancerAgent_Run llm t u)) \<noteq> Some (Errorf msg))"
    by blast
next
  assume "EnhancerAgent_Run llm st w = ((res, None), w')"
  then obtain s c where s: "OutputState res = Some s" "Get s ''enhanced'' = Some (VString c)"
      "Get s ''message'' = Some (VString c)"
    using EnhancerAgent_Run_writes by blast
  have "snd (fst (FormatterAgent_Run llm t u)) \<noteq> Some (Errorf msg)"
    if "s_fields s \<subseteq>\<^sub>m s_fields t" for t u msg
    using FormatterAgent_Run_reads(2) [of t "VString c"] Get_map_le [OF s(2) that] by simp
  with s show "\<exists>s c. OutputState res = Some s \<and> Get s ''enhanced'' = Some c \<and>
      Get s ''message'' = Some c \<and>
      (\<forall>t u msg. s_fields s \<subseteq>\<^sub>m s_fields t \<longrightarrow>
         snd (fst (FormatterAgent_Run llm t u)) \<noteq> Some (Errorf msg))"
    by blast
next
  assume "FormatterAgent_Run llm st w = ((res, None), w')"
  then show "\<exists>s c. OutputState res = Some s \<and> Get s ''final_response'' = Some c \<and>
      Get s ''message'' = Some c"
    using FormatterAgent_Run_writes by blast
qed (simp_all add: EnhancerAgent_Run_reads FormatterAgent_Run_reads)

lemmas agent_eval = ProcessorAgent_Run_def EnhancerAgent_Run_def FormatterAgent_Run_def
  GetData_def llm_Call_def Printf_def Get_def Set_def SetMeta_def NewState_def Let_def
  ProcessorPrompt_def EnhancerPrompt_def FormatterPrompt_def AgentResult_zero_def


theorem message_key_is_fallback_input_witness:
  "w_calls (snd (EnhancerAgent_Run name_llm (Set NewState ''message'' (VString ''hello'')) demo_world))
     = [EnhancerPrompt (VString ''hello'')] \<and>
   w_calls (snd (EnhancerAgent_Run name_llm
       (Set (Set NewState ''message'' (VString ''m'')) ''processed'' (VString ''p'')) demo_world))
     = [EnhancerPrompt (VString ''p'')] \<and>
   w_calls (snd (FormatterAgent_Run name_llm (Set NewState ''message'' (VString ''hello'')) demo_world))
     = [FormatterPrompt (VString ''hello'')] \<and>
   w_calls (snd (FormatterAgent_Run name_llm
       (Set (Set NewState ''message'' (VString ''m'')) ''enhanced'' (VString ''e'')) demo_world))
     = [FormatterPrompt (VString ''e'')] \<and>
   (\<exists>s c. OutputState (fst (fst (ProcessorAgent_Run name_llm NewState demo_world))) = Some s \<and>
      Get s ''processed'' = Some c \<and> Get s ''message'' = Some c \<and>
      snd (fst (EnhancerAgent_Run name_llm s demo_world)) \<noteq> Some (Errorf ''no processed data found'')) \<and>
   (\<exists>s c. OutputState (fst (fst (EnhancerAgent_Run name_llm
              (Set NewState ''message'' (VString ''hello'')) demo_world))) = Some s \<and>
      Get s ''enhanced'' = Some c \<and> Get s ''message'' = Some c \<and>
      snd (fst (FormatterAgent_Run name_llm s demo_world)) \<noteq> Some (Errorf ''no enhanced data found'')) \<and>
   (\<exists>s c. OutputState (fst (fst (FormatterAgent_Run name_llm
              (Set NewState ''message'' (VString ''hello'')) demo_world))) = Some s \<and>
      Get s ''final_response'' = Some c \<and> Get s ''message'' = Some c)"
proof -
  let ?msg = "Set NewState ''message'' (VString ''hello'')"
  let ?pm = "Set (Set NewState ''message'' (VString ''m'')) ''processed'' (VString ''p'')"
  let ?em = "Set (Set NewState ''message'' (VString ''m'')) ''enhanced'' (VString ''e'')"
  have g: "Get ?msg ''processed'' = None" "Get ?msg ''enhanced'' = None"
    "Get ?msg ''message'' = Some (VString ''hello'')"
    "Get ?pm ''processed'' = Some (VString ''p'')" "Get ?em ''enhanced'' = Some (VString ''e'')"
    by (simp_all add: Get_def Set_def NewState_def)
  have empty: "w_calls demo_world = []"
    by (simp add: demo_world_def)
  have ok: "snd (fst (ProcessorAgent_Run name_llm NewState demo_world)) = None"
    "snd (fst (EnhancerAgent_Run name_llm ?msg demo_world)) = None"
    "snd (fst (FormatterAgent_Run name_llm ?msg demo_world)) = None"
    by (simp_all add: agent_eval demo_world_def demo_event_def name_llm_def)
  have p: "ProcessorAgent_Run name_llm NewState demo_world =
      ((fst (fst (ProcessorAgent_Run name_llm NewState demo_world)), None),
       snd (ProcessorAgent_Run name_llm NewState demo_world))"
    using ok(1) by (metis prod.collapse)
  have e: "EnhancerAgent_Run name_llm ?msg demo_world =
      ((fst (fst (EnhancerAgent_Run name_llm ?msg demo_world)), None),
       snd (EnhancerAgent_Run name_llm ?msg demo_world))"
    using ok(2) by (metis prod.collapse)
  have f: "FormatterAgent_Run name_llm ?msg demo_world =
      ((fst (fst (FormatterAgent_Run name_llm ?msg demo_world)), None),
       snd (FormatterAgent_Run name_llm ?msg demo_world))"
    using ok(3) by (metis prod.collapse)
  note m1 = message_key_is_fallback_input
      [where st = ?msg and v = "VString ''hello''" and llm = name_llm and w = demo_world]
  note m2 = message_key_is_fallback_input
      [where st = ?pm and v = "VString ''p''" and llm = name_llm and w = demo_world]
  note m3 = message_key_is_fallback_input
      [where st = ?em and v = "VString ''e''" and llm = name_llm and w = demo_world]
  note m4 = message_key_is_fallback_input
      [where st = NewState and llm = name_llm and w = demo_world
        and res = "fst (fst (ProcessorAgent_Run name_llm NewState demo_world))"
        and w' = "snd (ProcessorAgent_Run name_llm NewState demo_world)"]
  note m5 = message_key_is_fallback_input
      [where st = ?msg and llm = name_llm and w = demo_world
        and res = "fst (fst (EnhancerAgent_Run name_llm ?msg demo_world))"
        and w' = "snd (EnhancerAgent_Run name_llm ?msg demo_world)"]
  note m6 = message_key_is_fallback_input
      [where st = ?msg and llm = name_llm and w = demo_world
        and res = "fst (fst (FormatterAgent_Run name_llm ?msg demo_world))"
        and w' = "snd (FormatterAgent_Run name_llm ?msg demo_world)"]
  have c1: "w_calls (snd (EnhancerAgent_Run name_llm ?msg demo_world)) = [EnhancerPrompt (VString ''hello'')]"
    and c3: "w_calls (snd (FormatterAgent_Run name_llm ?msg demo_world)) = [FormatterPrompt (VString ''hello'')]"
    using m1 g empty by simp_all
  have c2: "w_calls (snd (EnhancerAgent_Run name_llm ?pm demo_world)) = [EnhancerPrompt (VString ''p'')]"
    using m2 g empty by simp
  have c4: "w_calls (snd (FormatterAgent_Run name_llm ?em demo_world)) = [FormatterPrompt (VString ''e'')]"
    using m3 g empty by simp
  have c5: "\<exists>s c. OutputState (fst (fst (ProcessorAgent_Run name_llm NewState demo_world))) = Some s \<and>
      Get s ''processed'' = Some c \<and> Get s ''message'' = Some c \<and>
      snd (fst (EnhancerAgent_Run name_llm s demo_world)) \<noteq> Some (Errorf ''no processed data found'')"
    using m4 p by (meson map_le_refl)
  have c6: "\<exists>s c. OutputState (fst (fst (EnhancerAgent_Run name_llm ?msg demo_world))) = Some s \<and>
      Get s ''enhanced'' = Some c \<and> Get s ''message'' = Some c \<and>
      snd (fst (FormatterAgent_Run name_llm s demo_world)) \<noteq> Some (Errorf ''no enhanced data found'')"
    using m5 e by (meson map_le_refl)
  have c7: "\<exists>s c. OutputState (fst (fst (FormatterAgent_Run name_llm ?msg demo_world))) = Some s \<and>
      Get s ''final_response'' = Some c \<and> Get s ''message'' = Some c"
    using m6 f by meson
  show ?thesis
    using c1 c2 c3 c4 c5 c6 c7 by blast
qed

section \<open>The chain of the three agents\<close>

lemma llm_Call_Inr:
  "fst (llm (w_llm w) q) = Inr r \<Longrightarrow>
   llm_Call llm q w = (Inr r, w\<lparr>w_llm := snd (llm (w_llm w) q), w_calls := w_calls w @ [q]\<rparr>)"
  by (auto simp: llm_Call_def split: prod.splits)

text \<open>
  C1. Take an event with data \<^verbatim>\<open>{input: X}\<close> and metadata \<^verbatim>\<open>{route: processor}\<close>, and a
  provider with which each agent appends its own name: it answers the prompt an agent
  builds from a text with that text followed by a colon and the agent's name. Then
  ProcessorAgent, EnhancerAgent on ProcessorAgent's output state and FormatterAgent on
  EnhancerAgent's output state all succeed, the routing directives they set name
  \<^verbatim>\<open>enhancer\<close>, \<^verbatim>\<open>formatter\<close> and no agent, and the final state has
  \<^verbatim>\<open>message = X:processor:enhancer:formatter\<close>.
\<close>

theorem chain_message_appends_names:
  assumes proc: "\<forall>p m. fst (llm p (ProcessorPrompt m)) = Inr \<lparr>Content = m @ '':processor''\<rparr>"
    and enh: "\<forall>p v. fst (llm p (EnhancerPrompt v)) = Inr \<lparr>Content = fmt_v v @ '':enhancer''\<rparr>"
    and form: "\<forall>p v. fst (llm p (FormatterPrompt v)) = Inr \<lparr>Content = fmt_v v @ '':formatter''\<rparr>"
    and data: "e_data (w_event w) = [''input'' \<mapsto> VString X]"
    and route: "e_meta (w_event w) = [''route'' \<mapsto> ''processor'']"
  shows "\<exists>s1 w1 s2 w2 s3 w3.
     ProcessorAgent_Run llm st w = ((\<lparr>OutputState = Some s1\<rparr>, None), w1) \<and>
     Get s1 ''message'' = Some (VString (X @ '':processor'')) \<and>
     s_meta s1 RouteMetadataKey = Some ''enhancer'' \<and>
     EnhancerAgent_Run llm s1 w1 = ((\<lparr>OutputState = Some s2\<rparr>, None), w2) \<and>
     Get s2 ''message'' = Some (VString (X @ '':processor:enhancer'')) \<and>
     s_meta s2 RouteMetadataKey = Some ''formatter'' \<and>
     FormatterAgent_Run llm s2 w2 = ((\<lparr>OutputState = Some s3\<rparr>, None), w3) \<and>
     Get s3 ''message'' = Some (VString (X @ '':processor:enhancer:formatter'')) \<and>
     s_meta s3 RouteMetadataKey = None"
proof -
  define c1 where "c1 = X @ '':processor''"
  define c2 where "c2 = c1 @ '':enhancer''"
  define c3 where "c3 = c2 @ '':formatter''"
  define s1 where "s1 =
    \<lparr>s_fields = [''processed'' \<mapsto> VString c1, ''message'' \<mapsto> VString c1],
     s_meta = [RouteMetadataKey \<mapsto> ''enhancer'']\<rparr>"
  define s2 where "s2 =
    \<lparr>s_fields = [''enhanced'' \<mapsto> VString c2, ''message'' \<mapsto> VString c2],
     s_meta = [RouteMetadataKey \<mapsto> ''formatter'']\<rparr>"
  define s3 where "s3 =
    \<lparr>s_fields = [''final_response'' \<mapsto> VString c3, ''message'' \<mapsto> VString c3],
     s_meta = Map.empty\<rparr>"
  have input: "GetData w ''input'' = Some (VString X)"
    using data by (simp add: GetData_def)
  have "fst (llm (w_llm w) (ProcessorPrompt X)) = Inr \<lparr>Content = c1\<rparr>"
    using proc by (simp add: c1_def)
  then obtain w1 where run1: "ProcessorAgent_Run llm st w = ((\<lparr>OutputState = Some s1\<rparr>, None), w1)"
    by (simp add: ProcessorAgent_Run_call [OF input] llm_Call_Inr s1_def)
  have g1: "Get s1 ''processed'' = Some (VString c1)"
    by (simp add: Get_def s1_def)
  have "fst (llm (w_llm w1) (EnhancerPrompt (VString c1))) = Inr \<lparr>Content = c2\<rparr>"
    using enh by (simp add: c2_def)
  then obtain w2 where run2: "EnhancerAgent_Run llm s1 w1 = ((\<lparr>OutputState = Some s2\<rparr>, None), w2)"
    using g1 by (simp add: EnhancerAgent_Run_call [where v = "VString c1"] llm_Call_Inr s2_def)
  have g2: "Get s2 ''enhanced'' = Some (VString c2)"
    by (simp add: Get_def s2_def)
  have "fst (llm (w_llm w2) (FormatterPrompt (VString c2))) = Inr \<lparr>Content = c3\<rparr>"
    using form by (simp add: c3_def)
  then obtain w3 where run3: "FormatterAgent_Run llm s2 w2 = ((\<lparr>OutputState = Some s3\<rparr>, None), w3)"
    using g2 by (simp add: FormatterAgent_Run_call [where v = "VString c2"] llm_Call_Inr s3_def)
  have m1: "Get s1 ''message'' = Some (VString (X @ '':processor''))"
    "s_meta s1 RouteMetadataKey = Some ''enhancer''"
    by (simp_all add: Get_def s1_def c1_def)
  have m2: "Get s2 ''message'' = Some (VString (X @ '':processor:enhancer''))"
    "s_meta s2 RouteMetadataKey = Some ''formatter''"
    by (simp_all add: Get_def s2_def c2_def c1_def)
  have m3: "Get s3 ''message'' = Some (VString (X @ '':processor:enhancer:formatter''))"
    "s_meta s3 RouteMetadataKey = None"
    by (simp_all add: Get_def s3_def c3_def c2_def c1_def)
  from run1 run2 run3 m1 m2 m3 show ?thesis
    by blast
qed

lemma name_llm_appends:
  "fst (name_llm p (ProcessorPrompt m)) = Inr \<lparr>Content = m @ '':processor''\<rparr>"
  "fst (name_llm p (EnhancerPrompt v)) = Inr \<lparr>Content = fmt_v v @ '':enhancer''\<rparr>"
  "fst (name_llm p (FormatterPrompt v)) = Inr \<lparr>Content = fmt_v v @ '':formatter''\<rparr>"
  by (simp_all add: name_llm_def ProcessorPrompt_def EnhancerPrompt_def FormatterPrompt_def)

theorem chain_message_appends_names_witness:
  "\<exists>s1 w1 s2 w2 s3 w3.
     ProcessorAgent_Run name_llm NewState demo_world = ((\<lparr>OutputState = Some s1\<rparr>, None), w1) \<and>
     Get s1 ''message'' = Some (VString ''X:processor'') \<and>
     s_meta s1 RouteMetadataKey = Some ''enhancer'' \<and>
     EnhancerAgent_Run name_llm s1 w1 = ((\<lparr>OutputState = Some s2\<rparr>, None), w2) \<and>
     Get s2 ''message'' = Some (VString ''X:processor:enhancer'') \<and>
     s_meta s2 RouteMetadataKey = Some ''formatter'' \<and>
     FormatterAgent_Run name_llm s2 w2 = ((\<lparr>OutputState = Some s3\<rparr>, None), w3) \<and>
     Get s3 ''message'' = Some (VString ''X:processor:enhancer:formatter'') \<and>
     s_meta s3 RouteMetadataKey = None"
proof -
  have d: "e_data (w_event demo_world) = [''input'' \<mapsto> VString ''X'']"
    and r: "e_meta (w_event demo_world) = [''route'' \<mapsto> ''processor'']"
    by (simp_all add: demo_world_def demo_event_def)
  show ?thesis
    using chain_message_appends_names
        [where llm = name_llm and w = demo_world and X = "''X''" and st = NewState, OF _ _ _ d r]
    by (simp add: name_llm_appends)
qed

section \<open>Running the same data again\<close>

lemma ProcessorAgent_Run_fst:
  "fst (ProcessorAgent_Run llm st w) =
     (case GetData w ''input'' of
        Some (VString x) \<Rightarrow>
          (case fst (llm (w_llm w) (ProcessorPrompt x)) of
             Inl err \<Rightarrow> (AgentResult_zero, Some (CallError err))
           | Inr response \<Rightarrow>
               (\<lparr>OutputState = Some
                   \<lparr>s_fields = [''processed'' \<mapsto> VString (Content response),
                                ''message'' \<mapsto> VString (Content response)],
                    s_meta = [RouteMetadataKey \<mapsto> ''enhancer'']\<rparr>\<rparr>, None))
      | _ \<Rightarrow> (AgentResult_zero, Some (Errorf ''no input provided'')))"
  by (auto simp: ProcessorAgent_Run_def Let_def NewState_def Set_def SetMeta_def
      llm_Call_def split: option.splits val.splits prod.splits sum.splits)

lemma EnhancerAgent_Run_fst:
  "fst (EnhancerAgent_Run llm st w) =
     (case (case Get st ''processed'' of Some v \<Rightarrow> Some v | None \<Rightarrow> Get st ''message'') of
        None \<Rightarrow> (AgentResult_zero, Some (Errorf ''no processed data found''))
      | Some v \<Rightarrow>
          (case fst (llm (w_llm w) (EnhancerPrompt v)) of
             Inl err \<Rightarrow> (AgentResult_zero, Some (CallError err))
           | Inr response \<Rightarrow>
               (\<lparr>OutputState = Some
                   \<lparr>s_fields = [''enhanced'' \<mapsto> VString (Content response),
                                ''message'' \<mapsto> VString (Content response)],
                    s_meta = [RouteMetadataKey \<mapsto> ''formatter'']\<rparr>\<rparr>, None)))"
  by (auto simp: EnhancerAgent_Run_def Let_def NewState_def Set_def SetMeta_def
      llm_Call_def split: option.splits prod.splits sum.splits)

lemma FormatterAgent_Run_fst:
  "fst (FormatterAgent_Run llm st w) =
     (case (case Get st ''enhanced'' of Some v \<Rightarrow> Some v | None \<Rightarrow> Get st ''message'') of
        None \<Rightarrow> (AgentResult_zero, Some (Errorf ''no enhanced data found''))
      | Some v \<Rightarrow>
          (case fst (llm (w_llm w) (FormatterPrompt v)) of
             Inl err \<Rightarrow> (AgentResult_zero, Some (CallError err))
           | Inr response \<Rightarrow>
               (\<lparr>OutputState = Some
                   \<lparr>s_fields = [''final_response'' \<mapsto> VString (Content response),
                                ''message'' \<mapsto> VString (Content response)],
                    s_meta = Map.empty\<rparr>\<rparr>, None)))"
  by (auto simp: FormatterAgent_Run_def Let_def NewState_def Set_def SetMeta_def
      llm_Call_def split: option.splits prod.splits sum.splits)

lemma ProcessorAgent_Run_same:
  assumes "\<forall>p p' q. fst (llm p q) = fst (llm p' q)"
    and "e_data (w_event w) = e_data (w_event w')"
  shows "fst (ProcessorAgent_Run llm st w) = fst (ProcessorAgent_Run llm st' w')"
proof -
  have "fst (llm (w_llm w) q) = fst (llm (w_llm w') q)" for q
    using assms(1) by blast
  then show ?thesis
    using assms(2) by (simp add: ProcessorAgent_Run_fst GetData_def split: option.splits val.splits)
qed

lemma EnhancerAgent_Run_same:
  assumes "\<forall>p p' q. fst (llm p q) = fst (llm p' q)"
  shows "fst (EnhancerAgent_Run llm st w) = fst (EnhancerAgent_Run llm st w')"
proof -
  have "fst (llm (w_llm w) q) = fst (llm (w_llm w') q)" for q
    using assms by blast
  then show ?thesis
    by (simp add: EnhancerAgent_Run_fst split: option.splits)
qed

lemma FormatterAgent_Run_same:
  assumes "\<forall>p p' q. fst (llm p q) = fst (llm p' q)"
  shows "fst (FormatterAgent_Run llm st w) = fst (FormatterAgent_Run llm st w')"
proof -
  have "fst (llm (w_llm w) q) = fst (llm (w_llm w') q)" for q
    using assms by blast
  then show ?thesis
    by (simp add: FormatterAgent_Run_fst split: option.splits)
qed

text \<open>
  C8. Let the provider be deterministic: its answer to a prompt does not depend on its
  own state. Take two worlds whose events carry the same data; the event ids, the
  provider's state and what has been logged and printed may differ. Then each agent
  returns the same result and error in both, on the same input state (ProcessorAgent on
  any two input states), and whenever the chain ProcessorAgent, EnhancerAgent,
  FormatterAgent runs through in the first world, it passes the same intermediate states
  and ends with the same final result in the second.
\<close>

theorem rerun_same_data_same_result:
  assumes det: "\<forall>p p' q. fst (llm p q) = fst (llm p' q)"
    and data: "e_data (w_event w) = e_data (w_event w')"
  shows "fst (ProcessorAgent_Run llm st w) = fst (ProcessorAgent_Run llm st' w') \<and>
     (\<forall>s. fst (EnhancerAgent_Run llm s w) = fst (EnhancerAgent_Run llm s w')) \<and>
     (\<forall>s. fst (FormatterAgent_Run llm s w) = fst (FormatterAgent_Run llm s w')) \<and>
     (\<forall>s1 w1 s2 w2 r3 w3.
        ProcessorAgent_Run llm st w = ((\<lparr>OutputState = Some s1\<rparr>, None), w1) \<and>
        EnhancerAgent_Run llm s1 w1 = ((\<lparr>OutputState = Some s2\<rparr>, None), w2) \<and>
        FormatterAgent_Run llm s2 w2 = (r3, w3) \<longrightarrow>
        (\<exists>w1' w2' w3'.
           ProcessorAgent_Run llm st' w' = ((\<lparr>OutputState = Some s1\<rparr>, None), w1') \<and>
           EnhancerAgent_Run llm s1 w1' = ((\<lparr>OutputState = Some s2\<rparr>, None), w2') \<and>
           FormatterAgent_Run llm s2 w2' = (r3, w3')))"
proof (intro conjI allI impI)
  show "fst (ProcessorAgent_Run llm st w) = fst (ProcessorAgent_Run llm st' w')"
    using det data by (rule ProcessorAgent_Run_same)
  show "fst (EnhancerAgent_Run llm s w) = fst (EnhancerAgent_Run llm s w')" for s
    using det by (rule EnhancerAgent_Run_same)
  show "fst (FormatterAgent_Run llm s w) = fst (FormatterAgent_Run llm s w')" for s
    using det by (rule FormatterAgent_Run_same)
next
  fix s1 w1 s2 w2 r3 w3
  assume runs: "ProcessorAgent_Run llm st w = ((\<lparr>OutputState = Some s1\<rparr>, None), w1) \<and>
     EnhancerAgent_Run llm s1 w1 = ((\<lparr>OutputState = Some s2\<rparr>, None), w2) \<and>
     FormatterAgent_Run llm s2 w2 = (r3, w3)"
  define w1' where "w1' = snd (ProcessorAgent_Run llm st' w')"
  define w2' where "w2' = snd (EnhancerAgent_Run llm s1 w1')"
  define w3' where "w3' = snd (FormatterAgent_Run llm s2 w2')"
  have "fst (ProcessorAgent_Run llm st' w') = (\<lparr>OutputState = Some s1\<rparr>, None)"
    using ProcessorAgent_Run_same [OF det data, of st st'] runs by simp
  then have r1: "ProcessorAgent_Run llm st' w' = ((\<lparr>OutputState = Some s1\<rparr>, None), w1')"
    by (simp add: w1'_def prod_eq_iff)
  have "fst (EnhancerAgent_Run llm s1 w1') = (\<lparr>OutputState = Some s2\<rparr>, None)"
    using EnhancerAgent_Run_same [OF det, of s1 w1 w1'] runs by simp
  then have r2: "EnhancerAgent_Run llm s1 w1' = ((\<lparr>OutputState = Some s2\<rparr>, None), w2')"
    by (simp add: w2'_def prod_eq_iff)
  have "fst (FormatterAgent_Run llm s2 w2') = r3"
    using FormatterAgent_Run_same [OF det, of s2 w2 w2'] runs by simp
  then have r3: "FormatterAgent_Run llm s2 w2' = (r3, w3')"
    by (simp add: w3'_def prod_eq_iff)
  from r1 r2 r3 show "\<exists>w1' w2' w3'.
      ProcessorAgent_Run llm st' w' = ((\<lparr>OutputState = Some s1\<rparr>, None), w1') \<and>
      EnhancerAgent_Run llm s1 w1' = ((\<lparr>OutputState = Some s2\<rparr>, None), w2') \<and>
      FormatterAgent_Run llm s2 w2' = (r3, w3')"
    by blast
qed

theorem rerun_same_data_same_result_witness:
  "fst (ProcessorAgent_Run name_llm NewState demo_world) =
     fst (ProcessorAgent_Run name_llm (Set NewState ''message'' (VString ''old'')) rerun_world) \<and>
   fst (EnhancerAgent_Run name_llm (Set NewState ''message'' (VString ''hello'')) demo_world) =
     fst (EnhancerAgent_Run name_llm (Set NewState ''message'' (VString ''hello'')) rerun_world) \<and>
   fst (FormatterAgent_Run name_llm (Set NewState ''message'' (VString ''hello'')) demo_world) =
     fst (FormatterAgent_Run name_llm (Set NewState ''message'' (VString ''hello'')) rerun_world) \<and>
   (\<exists>s1 w1 s2 w2 r3 w3 w1' w2' w3'.
      ProcessorAgent_Run name_llm NewState demo_world = ((\<lparr>OutputState = Some s1\<rparr>, None), w1) \<and>
      EnhancerAgent_Run name_llm s1 w1 = ((\<lparr>OutputState = Some s2\<rparr>, None), w2) \<and>
      FormatterAgent_Run name_llm s2 w2 = (r3, w3) \<and>
      ProcessorAgent_Run name_llm (Set NewState ''message'' (VString ''old'')) rerun_world =
        ((\<lparr>OutputState = Some s1\<rparr>, None), w1') \<and>
      EnhancerAgent_Run name_llm s1 w1' = ((\<lparr>OutputState = Some s2\<rparr>, None), w2') \<and>
      FormatterAgent_Run name_llm s2 w2' = (r3, w3') \<and>
      w_event w3 \<noteq> w_event w3')"
proof -
  let ?old = "Set NewState ''message'' (VString ''old'')"
  have det: "\<forall>p p' q. fst (name_llm p q) = fst (name_llm p' q)"
    by (simp add: name_llm_def)
  have data: "e_data (w_event demo_world) = e_data (w_event rerun_world)"
    by (simp add: demo_world_def demo_event_def rerun_world_def)
  note same = rerun_same_data_same_result [OF det data, where st = NewState and st' = ?old]
  have input: "GetData demo_world ''input'' = Some (VString ''X'')"
    by (simp add: GetData_def demo_world_def demo_event_def)
  obtain s1 w1 where run1:
    "ProcessorAgent_Run name_llm NewState demo_world = ((\<lparr>OutputState = Some s1\<rparr>, None), w1)"
    and g1: "Get s1 ''processed'' = Some (VString ''X:processor'')"
    using name_llm_appends(1) [of "w_llm demo_world" "''X''"]
    by (simp add: ProcessorAgent_Run_call [OF input] Get_def
        llm_Call_Inr [where llm = name_llm and r = "\<lparr>Content = ''X:processor''\<rparr>"])
  obtain s2 w2 where run2:
    "EnhancerAgent_Run name_llm s1 w1 = ((\<lparr>OutputState = Some s2\<rparr>, None), w2)"
    using g1 name_llm_appends(2) [of "w_llm w1" "VString ''X:processor''"]
    by (simp add: EnhancerAgent_Run_call [where v = "VString ''X:processor''"]
        llm_Call_Inr [where llm = name_llm and r = "\<lparr>Content = ''X:processor:enhancer''\<rparr>"])
  obtain r3 w3 where run3: "FormatterAgent_Run name_llm s2 w2 = (r3, w3)"
    by (cases "FormatterAgent_Run name_llm s2 w2") blast
  from same run1 run2 run3 obtain w1' w2' w3' where again:
    "ProcessorAgent_Run name_llm ?old rerun_world = ((\<lparr>OutputState = Some s1\<rparr>, None), w1')"
    "EnhancerAgent_Run name_llm s1 w1' = ((\<lparr>OutputState = Some s2\<rparr>, None), w2')"
    "FormatterAgent_Run name_llm s2 w2' = (r3, w3')"
    by blast
  have ev: "w_event w3 = w_event demo_world" "w_event w3' = w_event rerun_world"
    using run1 run2 run3 again
      ProcessorAgent_Run_event [of name_llm NewState demo_world]
      ProcessorAgent_Run_event [of name_llm ?old rerun_world]
      EnhancerAgent_Run_event [of name_llm s1 w1] EnhancerAgent_Run_event [of name_llm s1 w1']
      FormatterAgent_Run_event [of name_llm s2 w2] FormatterAgent_Run_event [of name_llm s2 w2']
    by simp_all
  have "w_event w3 \<noteq> w_event w3'"
    unfolding ev by (simp add: demo_world_def demo_event_def rerun_world_def)
  then show ?thesis
    using same run1 run2 run3 again by blast
qed

section \<open>The Runner's lifecycle\<close>

lemma calls_Nil: "calls r [] = r"
  by (simp add: calls_def)

lemma calls_Cons: "calls r (c # cs) = calls (call r c) cs"
  by (simp add: calls_def)

lemma status_call_Stopped: "status r = Stopped \<Longrightarrow> status (call r c) = Stopped"
  by (cases c) (simp_all add: Start_def Stop_def Emit_def)

lemma status_calls_Stopped: "status r = Stopped \<Longrightarrow> status (calls r cs) = Stopped"
  by (induction cs arbitrary: r) (simp_all add: calls_Nil calls_Cons status_call_Stopped)

lemma status_call_not_started:
  "status r \<noteq> Running \<Longrightarrow> c \<noteq> CallStart \<Longrightarrow> status (call r c) \<noteq> Running"
  by (cases c) (simp_all add: Stop_def Emit_def)

lemma status_calls_not_started:
  "status r \<noteq> Running \<Longrightarrow> CallStart \<notin> set cs \<Longrightarrow> status (calls r cs) \<noteq> Running"
proof (induction cs arbitrary: r)
  case Nil
  then show ?case by (simp add: calls_Nil)
next
  case (Cons c cs)
  from Cons.prems have "status (call r c) \<noteq> Running"
    by (intro status_call_not_started) auto
  with Cons show ?case
    by (simp add: calls_Cons)
qed

lemma Emit_not_running: "status r \<noteq> Running \<Longrightarrow> Emit r e = (Some NotRunningError, r)"
  by (simp add: Emit_def)

text \<open>
  C6. \<^verbatim>\<open>Emit\<close> returns no error exactly when the Runner is running, and then the event
  is appended to the queue. In every other state it returns NotRunningError to the
  caller and leaves the Runner, and so its queue, as it was. That is the case for a new
  Runner, for a new Runner after any calls none of which is \<^verbatim>\<open>Start\<close>, and after
  \<^verbatim>\<open>Stop\<close>, whatever is called afterwards.
\<close>

theorem emit_only_when_running:
  "(fst (Emit r e) = None \<longleftrightarrow> status r = Running) \<and>
   (status r = Running \<longrightarrow> Emit r e = (None, r\<lparr>queue := queue r @ [e]\<rparr>)) \<and>
   (status r \<noteq> Running \<longrightarrow> Emit r e = (Some NotRunningError, r)) \<and>
   Emit NewRunner e = (Some NotRunningError, NewRunner) \<and>
   (CallStart \<notin> set cs \<longrightarrow>
      Emit (calls NewRunner cs) e = (Some NotRunningError, calls NewRunner cs)) \<and>
   Emit (calls (Stop r) cs) e = (Some NotRunningError, calls (Stop r) cs)"
proof -
  have idle: "status NewRunner \<noteq> Running"
    by (simp add: NewRunner_def)
  have "status (calls (Stop r) cs) = Stopped"
    by (simp add: status_calls_Stopped Stop_def)
  then have stopped: "status (calls (Stop r) cs) \<noteq> Running"
    by simp
  show ?thesis
    using idle stopped status_calls_not_started [OF idle, of cs]
    by (auto simp: Emit_not_running) (simp_all add: Emit_def split: if_splits)
qed

theorem emit_only_when_running_witness:
  "fst (Emit (Start NewRunner) demo_event) = None \<and>
   status (Start NewRunner) = Running \<and>
   Emit (Start NewRunner) demo_event = (None, \<lparr>status = Running, queue = [demo_event]\<rparr>) \<and>
   status NewRunner \<noteq> Running \<and>
   Emit NewRunner demo_event = (Some NotRunningError, NewRunner) \<and>
   CallStart \<notin> set [CallStop, CallEmit demo_event] \<and>
   Emit (calls NewRunner [CallStop, CallEmit demo_event]) demo_event =
     (Some NotRunningError, calls NewRunner [CallStop, CallEmit demo_event]) \<and>
   Emit (calls (Stop (Start NewRunner)) [CallStart, CallEmit demo_event]) demo_event =
     (Some NotRunningError, \<lparr>status = Stopped, queue = []\<rparr>)"
  using emit_only_when_running [of "Start NewRunner" demo_event "[]"]
    emit_only_when_running [of NewRunner demo_event "[CallStop, CallEmit demo_event]"]
    emit_only_when_running [of "Start NewRunner" demo_event "[CallStart, CallEmit demo_event]"]
  by (simp add: Start_def Stop_def NewRunner_def calls_def Emit_def)

section \<open>The dispatch loop\<close>

text \<open>
  Induction over the hops of a run: a property of the loop's arguments and result holds
  for every run when it holds where the loop ends and is carried from the next hop's run
  back to the run that makes it.
\<close>

lemma dispatch_loop_cases:
  assumes limit: "\<And>hops name st trace w. step_limit cfg \<le> hops \<Longrightarrow>
      P hops name st trace w
        \<lparr>run_outcome = Failed RoutingLoopError, run_state = st, run_invoked = trace, run_world = w\<rparr>"
    and unknown: "\<And>hops name st trace w. hops < step_limit cfg \<Longrightarrow> agents cfg name = None \<Longrightarrow>
      P hops name st trace w
        \<lparr>run_outcome = Failed (UnknownAgentError name), run_state = st, run_invoked = trace,
         run_world = w\<rparr>"
    and error: "\<And>hops name st trace w agent res err w'. hops < step_limit cfg \<Longrightarrow>
      agents cfg name = Some agent \<Longrightarrow> agent st w = ((res, Some err), w') \<Longrightarrow>
      P hops name st trace w
        \<lparr>run_outcome = Failed (AgentError name err), run_state = st,
         run_invoked = trace @ [name], run_world = w'\<rparr>"
    and finished: "\<And>hops name st trace w agent res w' nxt. hops < step_limit cfg \<Longrightarrow>
      agents cfg name = Some agent \<Longrightarrow> agent st w = ((res, None), w') \<Longrightarrow>
      NextAgent (result_state res) = (nxt, False) \<Longrightarrow>
      P hops name st trace w
        \<lparr>run_outcome = Completed, run_state = update_state (policy cfg) st (result_state res),
         run_invoked = trace @ [name], run_world = w'\<rparr>"
    and routed: "\<And>hops name st trace w agent res w' nxt. hops < step_limit cfg \<Longrightarrow>
      agents cfg name = Some agent \<Longrightarrow> agent st w = ((res, None), w') \<Longrightarrow>
      NextAgent (result_state res) = (nxt, True) \<Longrightarrow>
      P (Suc hops) nxt (update_state (policy cfg) st (result_state res)) (trace @ [name]) w'
        (dispatch_loop cfg (Suc hops) nxt (update_state (policy cfg) st (result_state res))
           (trace @ [name]) w') \<Longrightarrow>
      P hops name st trace w
        (dispatch_loop cfg (Suc hops) nxt (update_state (policy cfg) st (result_state res))
           (trace @ [name]) w')"
  shows "P hops name st trace w (dispatch_loop cfg hops name st trace w)"
proof (induction "step_limit cfg - hops" arbitrary: hops name st trace w)
  case 0
  then have "step_limit cfg \<le> hops"
    by simp
  then show ?case
    using limit by (simp add: dispatch_loop_limit)
next
  case (Suc n)
  then have below: "hops < step_limit cfg"
    by simp
  show ?case
  proof (cases "agents cfg name")
    case None
    with below show ?thesis
      using unknown by (simp add: dispatch_loop_unknown)
  next
    case (Some agent)
    obtain res eo w' where run: "agent st w = ((res, eo), w')"
      by (metis surj_pair)
    show ?thesis
    proof (cases eo)
      case (Some err)
      with below \<open>agents cfg name = Some agent\<close> run show ?thesis
        using error by (simp add: dispatch_loop_agent_error)
    next
      case None
      obtain nxt b where route: "NextAgent (result_state res) = (nxt, b)"
        by (metis surj_pair)
      show ?thesis
      proof (cases b)
        case False
        with below \<open>agents cfg name = Some agent\<close> run None route show ?thesis
          using finished by (simp add: dispatch_loop_done)
      next
        case True
        have "n = step_limit cfg - Suc hops"
          using Suc.hyps(2) by simp
        then have "P (Suc hops) nxt (update_state (policy cfg) st (result_state res))
            (trace @ [name]) w'
            (dispatch_loop cfg (Suc hops) nxt (update_state (policy cfg) st (result_state res))
               (trace @ [name]) w')"
          by (rule Suc.hyps(1))
        with below \<open>agents cfg name = Some agent\<close> run None route True show ?thesis
          using routed by (simp add: dispatch_loop_next)
      qed
    qed
  qed
qed

lemma dispatch_loop_invoked_le:
  "length (run_invoked (dispatch_loop cfg hops name st trace w))
     \<le> length trace + (step_limit cfg - hops)"
  by (rule dispatch_loop_cases
      [where P = "\<lambda>hops name st trace w r.
         length (run_invoked r) \<le> length trace + (step_limit cfg - hops)"]) auto

lemma dispatch_loop_limit_reached:
  "run_outcome (dispatch_loop cfg hops name st trace w) = Failed RoutingLoopError \<Longrightarrow>
   hops \<le> step_limit cfg \<Longrightarrow>
   length (run_invoked (dispatch_loop cfg hops name st trace w))
     = length trace + (step_limit cfg - hops)"
  by (rule dispatch_loop_cases
      [where P = "\<lambda>hops name st trace w r.
         run_outcome r = Failed RoutingLoopError \<longrightarrow> hops \<le> step_limit cfg \<longrightarrow>
         length (run_invoked r) = length trace + (step_limit cfg - hops)", rule_format]) auto

lemma dispatch_loop_larger_limit:
  assumes "step_limit cfg \<le> L"
  shows "run_outcome (dispatch_loop cfg hops name st trace w) \<noteq> Failed RoutingLoopError \<longrightarrow>
     dispatch_loop (cfg\<lparr>step_limit := L\<rparr>) hops name st trace w
       = dispatch_loop cfg hops name st trace w"
proof (rule dispatch_loop_cases
    [where P = "\<lambda>hops name st trace w r.
       run_outcome r \<noteq> Failed RoutingLoopError \<longrightarrow>
       dispatch_loop (cfg\<lparr>step_limit := L\<rparr>) hops name st trace w = r" and cfg = cfg],
    goal_cases)
  case (1 hops name st trace w)
  then show ?case by simp
next
  case (2 hops name st trace w)
  then show ?case
    using assms(1) by (simp add: dispatch_loop_unknown)
next
  case (3 hops name st trace w agent res err w')
  then show ?case
    using assms(1) by (simp add: dispatch_loop_agent_error [where agent = agent and res = res])
next
  case (4 hops name st trace w agent res w' nxt)
  then show ?case
    using assms(1)
    by (simp add: dispatch_loop_done [where agent = agent and res = res and w' = w' and nxt = nxt])
next
  case (5 hops name st trace w agent res w' nxt)
  then show ?case
    using assms(1)
    by (simp add: dispatch_loop_next [where agent = agent and res = res and w' = w' and nxt = nxt])
qed

lemmas run_eval = dispatch_def dispatch_loop.simps start_agent_def main_agents_def
  NextAgent_def result_state_def RouteMetadataKey_def agent_eval name_llm_def

lemma demo_run:
  "run_outcome (dispatch demo_pipeline NewState demo_world) = Completed"
  "run_invoked (dispatch demo_pipeline NewState demo_world) = [''processor'', ''enhancer'', ''formatter'']"
  "Get (run_state (dispatch demo_pipeline NewState demo_world)) ''message''
     = Some (VString ''X:processor:enhancer:formatter'')"
  by (simp_all add: run_eval demo_pipeline_def demo_world_def demo_event_def)

lemma short_run:
  "run_outcome (dispatch short_pipeline NewState demo_world) = Failed RoutingLoopError"
  "run_invoked (dispatch short_pipeline NewState demo_world) = [''processor'', ''enhancer'']"
  by (simp_all add: run_eval short_pipeline_def demo_pipeline_def demo_world_def demo_event_def)

lemma enhancer_down_run:
  "run_outcome (dispatch enhancer_down_pipeline NewState demo_world)
     = Failed (AgentError ''enhancer'' (CallError ''provider unavailable''))"
  "run_invoked (dispatch enhancer_down_pipeline NewState demo_world) = [''processor'', ''enhancer'']"
  "Get (run_state (dispatch enhancer_down_pipeline NewState demo_world)) ''message''
     = Some (VString ''X:processor'')"
  by (simp_all add: run_eval enhancer_down_pipeline_def enhancer_down_llm_def demo_world_def
      demo_event_def)

lemma start_agent_step_limit: "start_agent (cfg\<lparr>step_limit := L\<rparr>) e = start_agent cfg e"
  by (simp add: start_agent_def split: option.splits)

text \<open>
  C4. The dispatch loop is a total function: every run ends. A run invokes at most as
  many agents as the step limit allows, whatever the registered agents do and wherever
  their directives lead. A run that ends with RoutingLoopError has invoked exactly that
  many, and a run ends with RoutingLoopError whenever, under a larger limit, it would
  invoke more agents than the limit allows.
\<close>

theorem dispatch_hops_bounded:
  "length (run_invoked (dispatch cfg st w)) \<le> step_limit cfg \<and>
   (run_outcome (dispatch cfg st w) = Failed RoutingLoopError \<longrightarrow>
      length (run_invoked (dispatch cfg st w)) = step_limit cfg) \<and>
   (step_limit cfg \<le> L \<and>
    step_limit cfg < length (run_invoked (dispatch (cfg\<lparr>step_limit := L\<rparr>) st w)) \<longrightarrow>
      run_outcome (dispatch cfg st w) = Failed RoutingLoopError)"
proof (intro conjI impI)
  show le: "length (run_invoked (dispatch cfg st w)) \<le> step_limit cfg"
    using dispatch_loop_invoked_le [of cfg 0 _ st "[]" w] by (simp add: dispatch_def)
  show "length (run_invoked (dispatch cfg st w)) = step_limit cfg"
    if "run_outcome (dispatch cfg st w) = Failed RoutingLoopError"
    using that dispatch_loop_limit_reached [of cfg 0 _ st "[]" w] by (simp add: dispatch_def)
  show "run_outcome (dispatch cfg st w) = Failed RoutingLoopError"
    if more: "step_limit cfg \<le> L \<and>
      step_limit cfg < length (run_invoked (dispatch (cfg\<lparr>step_limit := L\<rparr>) st w))"
  proof (rule ccontr)
    assume "run_outcome (dispatch cfg st w) \<noteq> Failed RoutingLoopError"
    then have "dispatch (cfg\<lparr>step_limit := L\<rparr>) st w = dispatch cfg st w"
      using more dispatch_loop_larger_limit [of cfg L 0 "start_agent cfg (w_event w)" st "[]" w]
      by (simp add: dispatch_def start_agent_step_limit)
    with more le show False
      by simp
  qed
qed

theorem dispatch_hops_bounded_witness:
  "length (run_invoked (dispatch short_pipeline NewState demo_world)) \<le> step_limit short_pipeline \<and>
   run_outcome (dispatch short_pipeline NewState demo_world) = Failed RoutingLoopError \<and>
   length (run_invoked (dispatch short_pipeline NewState demo_world)) = step_limit short_pipeline \<and>
   step_limit short_pipeline \<le> 5 \<and>
   step_limit short_pipeline
     < length (run_invoked (dispatch (short_pipeline\<lparr>step_limit := 5\<rparr>) NewState demo_world))"
proof -
  have "short_pipeline\<lparr>step_limit := 5\<rparr> = demo_pipeline"
    by (simp add: short_pipeline_def demo_pipeline_def)
  then show ?thesis
    using dispatch_hops_bounded [of short_pipeline NewState demo_world 5]
    by (simp add: short_run demo_run short_pipeline_def)
qed

section \<open>A failing hop\<close>

lemma dispatch_loop_failed_hop:
  "run_outcome (dispatch_loop cfg hops name st trace w) = Failed (AgentError a err) \<longrightarrow>
     length trace < length (run_invoked (dispatch_loop cfg hops name st trace w)) \<and>
     last (run_invoked (dispatch_loop cfg hops name st trace w)) = a \<and>
     (\<exists>agent res wk. agents cfg a = Some agent \<and>
        agent (run_state (dispatch_loop cfg hops name st trace w)) wk
          = ((res, Some err), run_world (dispatch_loop cfg hops name st trace w))) \<and>
     (\<exists>wk. dispatch_loop
        (cfg\<lparr>step_limit :=
           hops + (length (run_invoked (dispatch_loop cfg hops name st trace w)) - length trace) - 1\<rparr>)
        hops name st trace w
       = \<lparr>run_outcome = Failed RoutingLoopError,
          run_state = run_state (dispatch_loop cfg hops name st trace w),
          run_invoked = butlast (run_invoked (dispatch_loop cfg hops name st trace w)),
          run_world = wk\<rparr>)"
proof (rule dispatch_loop_cases
    [where P = "\<lambda>hops name st trace w r.
       run_outcome r = Failed (AgentError a err) \<longrightarrow>
       length trace < length (run_invoked r) \<and> last (run_invoked r) = a \<and>
       (\<exists>agent res wk. agents cfg a = Some agent \<and>
          agent (run_state r) wk = ((res, Some err), run_world r)) \<and>
       (\<exists>wk. dispatch_loop
          (cfg\<lparr>step_limit := hops + (length (run_invoked r) - length trace) - 1\<rparr>)
          hops name st trace w
         = \<lparr>run_outcome = Failed RoutingLoopError, run_state = run_state r,
            run_invoked = butlast (run_invoked r), run_world = wk\<rparr>)" and cfg = cfg],
    goal_cases)
  case (1 hops name st trace w)
  then show ?case by simp
next
  case (2 hops name st trace w)
  then show ?case by simp
next
  case (3 hops name st trace w agent res err' w')
  then show ?case
    by (auto simp: dispatch_loop_limit)
next
  case (4 hops name st trace w agent res w' nxt)
  then show ?case by simp
next
  case (5 hops name st trace w agent res w' nxt)
  let ?r = "dispatch_loop cfg (Suc hops) nxt (update_state (policy cfg) st (result_state res))
      (trace @ [name]) w'"
  show ?case
  proof
    assume failed: "run_outcome ?r = Failed (AgentError a err)"
    with 5(5) obtain wk where
      longer: "length (trace @ [name]) < length (run_invoked ?r)"
      and rest: "last (run_invoked ?r) = a"
        "\<exists>agent res wk. agents cfg a = Some agent \<and>
           agent (run_state ?r) wk = ((res, Some err), run_world ?r)"
      and cut: "dispatch_loop
          (cfg\<lparr>step_limit := Suc hops + (length (run_invoked ?r) - length (trace @ [name])) - 1\<rparr>)
          (Suc hops) nxt (update_state (policy cfg) st (result_state res)) (trace @ [name]) w'
         = \<lparr>run_outcome = Failed RoutingLoopError, run_state = run_state ?r,
            run_invoked = butlast (run_invoked ?r), run_world = wk\<rparr>"
      by blast
    let ?L = "hops + (length (run_invoked ?r) - length trace) - 1"
    have same: "Suc hops + (length (run_invoked ?r) - length (trace @ [name])) - 1 = ?L"
      using longer by simp
    have below: "hops < step_limit (cfg\<lparr>step_limit := ?L\<rparr>)"
      using longer by simp
    have "dispatch_loop (cfg\<lparr>step_limit := ?L\<rparr>) hops name st trace w
        = dispatch_loop (cfg\<lparr>step_limit := ?L\<rparr>) (Suc hops) nxt
            (update_state (policy cfg) st (result_state res)) (trace @ [name]) w'"
      using dispatch_loop_next [OF below, of name agent st w res w' nxt trace] 5(2,3,4)
      by simp
    with cut same have "dispatch_loop (cfg\<lparr>step_limit := ?L\<rparr>) hops name st trace w
        = \<lparr>run_outcome = Failed RoutingLoopError, run_state = run_state ?r,
           run_invoked = butlast (run_invoked ?r), run_world = wk\<rparr>"
      by simp
    with longer rest show "length trace < length (run_invoked ?r) \<and> last (run_invoked ?r) = a \<and>
       (\<exists>agent res wk. agents cfg a = Some agent \<and>
          agent (run_state ?r) wk = ((res, Some err), run_world ?r)) \<and>
       (\<exists>wk. dispatch_loop (cfg\<lparr>step_limit := ?L\<rparr>) hops name st trace w
         = \<lparr>run_outcome = Failed RoutingLoopError, run_state = run_state ?r,
            run_invoked = butlast (run_invoked ?r), run_world = wk\<rparr>)"
      by auto
  qed
qed

text \<open>
  C5. Let a run fail because an agent's \<^verbatim>\<open>Run\<close> returned an error, at hop \<open>k\<close>. Then
  that agent is the last one invoked, so there is no hop \<open>k + 1\<close>; it returned its error
  on the state the run hands to the caller; and that state is the one hops \<open>1\<close> to
  \<open>k - 1\<close> produced: the same run under a step limit of \<open>k - 1\<close> is cut off after the
  same agents with the same state.
\<close>

theorem failed_hop_keeps_earlier_state:
  assumes "run_outcome (dispatch cfg st w) = Failed (AgentError a err)"
  shows "run_invoked (dispatch cfg st w) \<noteq> [] \<and>
     last (run_invoked (dispatch cfg st w)) = a \<and>
     (\<exists>agent res wk. agents cfg a = Some agent \<and>
        agent (run_state (dispatch cfg st w)) wk = ((res, Some err), run_world (dispatch cfg st w))) \<and>
     run_outcome (dispatch (cfg\<lparr>step_limit := length (run_invoked (dispatch cfg st w)) - 1\<rparr>) st w)
       = Failed RoutingLoopError \<and>
     run_state (dispatch (cfg\<lparr>step_limit := length (run_invoked (dispatch cfg st w)) - 1\<rparr>) st w)
       = run_state (dispatch cfg st w) \<and>
     run_invoked (dispatch (cfg\<lparr>step_limit := length (run_invoked (dispatch cfg st w)) - 1\<rparr>) st w)
       = butlast (run_invoked (dispatch cfg st w))"
proof -
  let ?r = "dispatch_loop cfg 0 (start_agent cfg (w_event w)) st [] w"
  have r: "dispatch cfg st w = ?r"
    by (simp add: dispatch_def)
  from assms dispatch_loop_failed_hop [of cfg 0 "start_agent cfg (w_event w)" st "[]" w a err]
  obtain wk where
    f: "0 < length (run_invoked ?r)" "last (run_invoked ?r) = a"
      "\<exists>agent res wk. agents cfg a = Some agent \<and>
         agent (run_state ?r) wk = ((res, Some err), run_world ?r)"
    and cut: "dispatch_loop (cfg\<lparr>step_limit := length (run_invoked ?r) - 1\<rparr>) 0
        (start_agent cfg (w_event w)) st [] w
       = \<lparr>run_outcome = Failed RoutingLoopError, run_state = run_state ?r,
          run_invoked = butlast (run_invoked ?r), run_world = wk\<rparr>"
    unfolding r by auto
  have "dispatch (cfg\<lparr>step_limit := length (run_invoked ?r) - 1\<rparr>) st w
      = \<lparr>run_outcome = Failed RoutingLoopError, run_state = run_state ?r,
         run_invoked = butlast (run_invoked ?r), run_world = wk\<rparr>"
    using cut by (simp add: dispatch_def start_agent_step_limit)
  with f show ?thesis
    unfolding r by simp
qed

theorem failed_hop_keeps_earlier_state_witness:
  "run_outcome (dispatch enhancer_down_pipeline NewState demo_world)
     = Failed (AgentError ''enhancer'' (CallError ''provider unavailable'')) \<and>
   last (run_invoked (dispatch enhancer_down_pipeline NewState demo_world)) = ''enhancer'' \<and>
   run_outcome (dispatch (enhancer_down_pipeline\<lparr>step_limit := 1\<rparr>) NewState demo_world)
     = Failed RoutingLoopError \<and>
   run_state (dispatch (enhancer_down_pipeline\<lparr>step_limit := 1\<rparr>) NewState demo_world)
     = run_state (dispatch enhancer_down_pipeline NewState demo_world) \<and>
   run_invoked (dispatch (enhancer_down_pipeline\<lparr>step_limit := 1\<rparr>) NewState demo_world)
     = [''processor''] \<and>
   Get (run_state (dispatch enhancer_down_pipeline NewState demo_world)) ''message''
     = Some (VString ''X:processor'')"
  using failed_hop_keeps_earlier_state [OF enhancer_down_run(1)]
  by (simp add: enhancer_down_run)

section \<open>The Router\<close>

lemma NextAgent_iff:
  "NextAgent s = (name, True) \<longleftrightarrow> s_meta s RouteMetadataKey = Some name \<and> name \<noteq> []"
  by (auto simp: NextAgent_def split: option.splits)

lemma NextAgent_none_iff:
  "snd (NextAgent s) = False \<longleftrightarrow>
     s_meta s RouteMetadataKey = None \<or> s_meta s RouteMetadataKey = Some []"
  by (auto simp: NextAgent_def split: option.splits)

text \<open>
  C2. \<^verbatim>\<open>NextAgent\<close> returns a name and true exactly when the state's metadata holds
  that name, not empty, under the routing-directive key; it returns false exactly when
  the key is absent or its value is empty. After ProcessorAgent succeeds the Router names
  \<^verbatim>\<open>enhancer\<close>, after EnhancerAgent succeeds it names \<^verbatim>\<open>formatter\<close>, and after
  FormatterAgent succeeds it names no agent: a run that has reached FormatterAgent below
  its step limit is completed with that hop.
\<close>

theorem next_agent_reads_directive:
  "(NextAgent s = (name, True) \<longleftrightarrow> s_meta s RouteMetadataKey = Some name \<and> name \<noteq> []) \<and>
   (snd (NextAgent s) = False \<longleftrightarrow>
      s_meta s RouteMetadataKey = None \<or> s_meta s RouteMetadataKey = Some []) \<and>
   (ProcessorAgent_Run llm st w = ((res, None), w') \<longrightarrow>
      NextAgent (result_state res) = (''enhancer'', True)) \<and>
   (EnhancerAgent_Run llm st w = ((res, None), w') \<longrightarrow>
      NextAgent (result_state res) = (''formatter'', True)) \<and>
   (FormatterAgent_Run llm st w = ((res, None), w') \<longrightarrow>
      snd (NextAgent (result_state res)) = False \<and>
      (hops < step_limit cfg \<and> agents cfg a = Some (FormatterAgent_Run llm) \<longrightarrow>
         run_outcome (dispatch_loop cfg hops a st trace w) = Completed \<and>
         run_invoked (dispatch_loop cfg hops a st trace w) = trace @ [a]))"
proof (intro conjI impI)
  show "NextAgent s = (name, True) \<longleftrightarrow> s_meta s RouteMetadataKey = Some name \<and> name \<noteq> []"
    by (rule NextAgent_iff)
  show "snd (NextAgent s) = False \<longleftrightarrow>
      s_meta s RouteMetadataKey = None \<or> s_meta s RouteMetadataKey = Some []"
    by (rule NextAgent_none_iff)
  show "NextAgent (result_state res) = (''enhancer'', True)"
    if "ProcessorAgent_Run llm st w = ((res, None), w')"
    using ProcessorAgent_Run_writes [OF that] by (auto simp: NextAgent_iff result_state_def)
  show "NextAgent (result_state res) = (''formatter'', True)"
    if "EnhancerAgent_Run llm st w = ((res, None), w')"
    using EnhancerAgent_Run_writes [OF that] by (auto simp: NextAgent_iff result_state_def)
  assume run: "FormatterAgent_Run llm st w = ((res, None), w')"
  show none: "snd (NextAgent (result_state res)) = False"
    using FormatterAgent_Run_writes [OF run] NextAgent_none_iff [of "result_state res"]
    by (auto simp: result_state_def)
  assume hop: "hops < step_limit cfg \<and> agents cfg a = Some (FormatterAgent_Run llm)"
  obtain nxt where "NextAgent (result_state res) = (nxt, False)"
    using none by (cases "NextAgent (result_state res)") simp
  with hop run have "dispatch_loop cfg hops a st trace w =
      \<lparr>run_outcome = Completed, run_state = update_state (policy cfg) st (result_state res),
       run_invoked = trace @ [a], run_world = w'\<rparr>"
    using dispatch_loop_done [of hops cfg a "FormatterAgent_Run llm" st w res w' nxt trace]
    by simp
  then show "run_outcome (dispatch_loop cfg hops a st trace w) = Completed"
    and "run_invoked (dispatch_loop cfg hops a st trace w) = trace @ [a]"
    by simp_all
qed

theorem next_agent_reads_directive_witness:
  "NextAgent (SetMeta NewState RouteMetadataKey ''enhancer'') = (''enhancer'', True) \<and>
   snd (NextAgent NewState) = False \<and>
   snd (NextAgent (SetMeta NewState RouteMetadataKey [])) = False \<and>
   snd (fst (ProcessorAgent_Run name_llm NewState demo_world)) = None \<and>
   NextAgent (result_state (fst (fst (ProcessorAgent_Run name_llm NewState demo_world))))
     = (''enhancer'', True) \<and>
   snd (fst (EnhancerAgent_Run name_llm (Set NewState ''message'' (VString ''hello'')) demo_world)) = None \<and>
   NextAgent (result_state (fst (fst (EnhancerAgent_Run name_llm
       (Set NewState ''message'' (VString ''hello'')) demo_world))))
     = (''formatter'', True) \<and>
   snd (fst (FormatterAgent_Run name_llm (Set NewState ''message'' (VString ''hello'')) demo_world)) = None \<and>
   snd (NextAgent (result_state (fst (fst (FormatterAgent_Run name_llm
       (Set NewState ''message'' (VString ''hello'')) demo_world))))) = False \<and>
   run_outcome (dispatch_loop demo_pipeline 0 ''formatter''
       (Set NewState ''message'' (VString ''hello'')) [] demo_world) = Completed \<and>
   run_invoked (dispatch_loop demo_pipeline 0 ''formatter''
       (Set NewState ''message'' (VString ''hello'')) [] demo_world) = [''formatter'']"
proof -
  let ?msg = "Set NewState ''message'' (VString ''hello'')"
  have ok: "snd (fst (ProcessorAgent_Run name_llm NewState demo_world)) = None"
    "snd (fst (EnhancerAgent_Run name_llm ?msg demo_world)) = None"
    "snd (fst (FormatterAgent_Run name_llm ?msg demo_world)) = None"
    by (simp_all add: agent_eval demo_world_def demo_event_def name_llm_def)
  have p: "ProcessorAgent_Run name_llm NewState demo_world =
      ((fst (fst (ProcessorAgent_Run name_llm NewState demo_world)), None),
       snd (ProcessorAgent_Run name_llm NewState demo_world))"
    using ok(1) by (metis prod.collapse)
  have e: "EnhancerAgent_Run name_llm ?msg demo_world =
      ((fst (fst (EnhancerAgent_Run name_llm ?msg demo_world)), None),
       snd (EnhancerAgent_Run name_llm ?msg demo_world))"
    using ok(2) by (metis prod.collapse)
  have f: "FormatterAgent_Run name_llm ?msg demo_world =
      ((fst (fst (FormatterAgent_Run name_llm ?msg demo_world)), None),
       snd (FormatterAgent_Run name_llm ?msg demo_world))"
    using ok(3) by (metis prod.collapse)
  have reg: "0 < step_limit demo_pipeline \<and>
      agents demo_pipeline ''formatter'' = Some (FormatterAgent_Run name_llm)"
    by (simp add: demo_pipeline_def main_agents_def)
  have m: "s_meta (SetMeta NewState RouteMetadataKey ''enhancer'') RouteMetadataKey = Some ''enhancer''"
    "s_meta NewState RouteMetadataKey = None"
    "s_meta (SetMeta NewState RouteMetadataKey []) RouteMetadataKey = Some []"
    by (simp_all add: SetMeta_def NewState_def)
  note n1 = next_agent_reads_directive
      [where s = "SetMeta NewState RouteMetadataKey ''enhancer''" and name = "''enhancer''"
        and llm = name_llm and st = NewState and w = demo_world
        and res = "fst (fst (ProcessorAgent_Run name_llm NewState demo_world))"
        and w' = "snd (ProcessorAgent_Run name_llm NewState demo_world)"]
  note n2 = next_agent_reads_directive
      [where s = NewState and llm = name_llm and st = ?msg and w = demo_world
        and res = "fst (fst (EnhancerAgent_Run name_llm ?msg demo_world))"
        and w' = "snd (EnhancerAgent_Run name_llm ?msg demo_world)"]
  note n3 = next_agent_reads_directive
      [where s = "SetMeta NewState RouteMetadataKey []" and llm = name_llm and st = ?msg
        and w = demo_world and hops = 0 and cfg = demo_pipeline and a = "''formatter''"
        and trace = "[]"
        and res = "fst (fst (FormatterAgent_Run name_llm ?msg demo_world))"
        and w' = "snd (FormatterAgent_Run name_llm ?msg demo_world)"]
  show ?thesis
    using n1 n2 n3 p e f reg m ok by simp
qed

section \<open>The chain under the dispatch loop\<close>

text \<open>
  The dispatch loop, given the agents of \<^verbatim>\<open>main\<close>, an event routed to \<^verbatim>\<open>processor\<close> and
  room for three hops, runs the chain of the three agents: under either policy for the
  running state, with a provider that appends the agents' names, the run is completed
  after \<^verbatim>\<open>processor\<close>, \<^verbatim>\<open>enhancer\<close> and \<^verbatim>\<open>formatter\<close>, with the message of the chain.
\<close>

lemma Get_update_state:
  "Get out k = Some v \<Longrightarrow> Get (update_state pol st out) k = Some v"
  by (cases pol) (simp_all add: Get_def)

lemma dispatch_runs_chain:
  assumes proc: "\<forall>p m. fst (llm p (ProcessorPrompt m)) = Inr \<lparr>Content = m @ '':processor''\<rparr>"
    and enh: "\<forall>p v. fst (llm p (EnhancerPrompt v)) = Inr \<lparr>Content = fmt_v v @ '':enhancer''\<rparr>"
    and form: "\<forall>p v. fst (llm p (FormatterPrompt v)) = Inr \<lparr>Content = fmt_v v @ '':formatter''\<rparr>"
    and data: "e_data (w_event w) ''input'' = Some (VString X)"
    and route: "e_meta (w_event w) RouteMetadataKey = Some ''processor''"
    and registered: "agents cfg = main_agents llm"
    and room: "3 \<le> step_limit cfg"
  shows "run_outcome (dispatch cfg st w) = Completed"
    and "run_invoked (dispatch cfg st w) = [''processor'', ''enhancer'', ''formatter'']"
    and "Get (run_state (dispatch cfg st w)) ''message''
      = Some (VString (X @ '':processor:enhancer:formatter''))"
proof -
  define c1 where "c1 = X @ '':processor''"
  define c2 where "c2 = c1 @ '':enhancer''"
  define c3 where "c3 = c2 @ '':formatter''"
  define s1 where "s1 =
    \<lparr>s_fields = [''processed'' \<mapsto> VString c1, ''message'' \<mapsto> VString c1],
     s_meta = [RouteMetadataKey \<mapsto> ''enhancer'']\<rparr>"
  define s2 where "s2 =
    \<lparr>s_fields = [''enhanced'' \<mapsto> VString c2, ''message'' \<mapsto> VString c2],
     s_meta = [RouteMetadataKey \<mapsto> ''formatter'']\<rparr>"
  define s3 where "s3 =
    \<lparr>s_fields = [''final_response'' \<mapsto> VString c3, ''message'' \<mapsto> VString c3],
     s_meta = Map.empty\<rparr>"
  define t1 where "t1 = update_state (policy cfg) st s1"
  define t2 where "t2 = update_state (policy cfg) t1 s2"
  define t3 where "t3 = update_state (policy cfg) t2 s3"
  have reg: "agents cfg ''processor'' = Some (ProcessorAgent_Run llm)"
    "agents cfg ''enhancer'' = Some (EnhancerAgent_Run llm)"
    "agents cfg ''formatter'' = Some (FormatterAgent_Run llm)"
    by (simp_all add: registered main_agents_def)
  have input: "GetData w ''input'' = Some (VString X)"
    using data by (simp add: GetData_def)
  have "fst (llm (w_llm w) (ProcessorPrompt X)) = Inr \<lparr>Content = c1\<rparr>"
    using proc by (simp add: c1_def)
  then obtain w1 where run1: "ProcessorAgent_Run llm st w = ((\<lparr>OutputState = Some s1\<rparr>, None), w1)"
    by (simp add: ProcessorAgent_Run_call [OF input] llm_Call_Inr s1_def)
  have g1: "Get t1 ''processed'' = Some (VString c1)"
    unfolding t1_def by (rule Get_update_state) (simp add: Get_def s1_def)
  have "fst (llm (w_llm w1) (EnhancerPrompt (VString c1))) = Inr \<lparr>Content = c2\<rparr>"
    using enh by (simp add: c2_def)
  then obtain w2 where run2: "EnhancerAgent_Run llm t1 w1 = ((\<lparr>OutputState = Some s2\<rparr>, None), w2)"
    using g1 by (simp add: EnhancerAgent_Run_call [where v = "VString c1"] llm_Call_Inr s2_def)
  have g2: "Get t2 ''enhanced'' = Some (VString c2)"
    unfolding t2_def by (rule Get_update_state) (simp add: Get_def s2_def)
  have "fst (llm (w_llm w2) (FormatterPrompt (VString c2))) = Inr \<lparr>Content = c3\<rparr>"
    using form by (simp add: c3_def)
  then obtain w3 where run3: "FormatterAgent_Run llm t2 w2 = ((\<lparr>OutputState = Some s3\<rparr>, None), w3)"
    using g2 by (simp add: FormatterAgent_Run_call [where v = "VString c2"] llm_Call_Inr s3_def)
  have n1: "NextAgent (result_state \<lparr>OutputState = Some s1\<rparr>) = (''enhancer'', True)"
    and n2: "NextAgent (result_state \<lparr>OutputState = Some s2\<rparr>) = (''formatter'', True)"
    and n3: "NextAgent (result_state \<lparr>OutputState = Some s3\<rparr>) = ([], False)"
    by (simp_all add: NextAgent_def result_state_def s1_def s2_def s3_def)
  have r: "result_state \<lparr>OutputState = Some s1\<rparr> = s1" "result_state \<lparr>OutputState = Some s2\<rparr> = s2"
    "result_state \<lparr>OutputState = Some s3\<rparr> = s3"
    by (simp_all add: result_state_def)
  have start: "start_agent cfg (w_event w) = ''processor''"
    using route by (simp add: start_agent_def)
  have "dispatch cfg st w = dispatch_loop cfg 0 ''processor'' st [] w"
    by (simp add: dispatch_def start)
  also have "\<dots> = dispatch_loop cfg 1 ''enhancer'' t1 [''processor''] w1"
    using dispatch_loop_next [OF _ reg(1) run1 n1, of 0 "[]"] room by (simp add: r t1_def)
  also have "\<dots> = dispatch_loop cfg 2 ''formatter'' t2 [''processor'', ''enhancer''] w2"
    using dispatch_loop_next [OF _ reg(2) run2 n2, of 1 "[''processor'']"] room
    by (simp add: r t2_def numeral_2_eq_2)
  also have "\<dots> = \<lparr>run_outcome = Completed, run_state = t3,
      run_invoked = [''processor'', ''enhancer'', ''formatter''], run_world = w3\<rparr>"
    using dispatch_loop_done [OF _ reg(3) run3 n3, of 2 "[''processor'', ''enhancer'']"] room
    by (simp add: r t3_def)
  finally have run: "dispatch cfg st w = \<lparr>run_outcome = Completed, run_state = t3,
      run_invoked = [''processor'', ''enhancer'', ''formatter''], run_world = w3\<rparr>" .
  have "Get t3 ''message'' = Some (VString c3)"
    unfolding t3_def by (rule Get_update_state) (simp add: Get_def s3_def)
  with run show "run_outcome (dispatch cfg st w) = Completed"
    and "run_invoked (dispatch cfg st w) = [''processor'', ''enhancer'', ''formatter'']"
    and "Get (run_state (dispatch cfg st w)) ''message''
      = Some (VString (X @ '':processor:enhancer:formatter''))"
    by (simp_all add: c3_def c2_def c1_def)
qed

end
